theory Spec2Isabelle
  imports Main "HOL-Library.Word" "HOL-Library.Monad_Syntax" "HOL-Library.Sublist"
begin

unbundle bit_operations_syntax

section \<open>Session.h: the per-connection protocol engine of rosserial_server\<close>

text \<open>
  The class \<open>Session\<close> is embedded as a record of its data members and one HOL function
  per member function. Everything a member function does to the outside (log output,
  requests to the buffered reader, writes to the socket, timer operations, handler calls)
  is appended to the \<open>trace\<close> field, in program order. A C++ exception is a value
  (\<open>Throws\<close>), and a call that does not return is \<open>None\<close>.
\<close>

subsection \<open>Machine integers and byte streams\<close>

type_synonym uint8_t = "8 word"
type_synonym uint16_t = "16 word"
type_synonym uint32_t = "32 word"

text \<open>The two exceptions the code can raise: \<open>ros::serialization::StreamOverrunException\<close>
  (a stream read or write past its end) and \<open>std::out_of_range\<close> (\<open>vector::at\<close>).\<close>

datatype exn = StreamOverrunException | out_of_range

text \<open>\<open>ros::serialization::IStream\<close> over a byte range: the list is the range that is still
  unread and \<open>getLength()\<close> is its length (a \<open>uint32_t\<close>; ranges of \<open>2 ^ 32\<close> bytes or more are
  outside this model). \<open>stream >> x\<close> reads little-endian and raises
  \<open>StreamOverrunException\<close> (here \<open>None\<close>) when the range is too short.\<close>

type_synonym IStream = "uint8_t list"

definition uint16_le :: "uint8_t \<Rightarrow> uint8_t \<Rightarrow> uint16_t" where
  "uint16_le lo hi = ucast lo OR push_bit 8 (ucast hi)"

fun istream_uint8 :: "IStream \<Rightarrow> (uint8_t \<times> IStream) option" where
  "istream_uint8 [] = None"
| "istream_uint8 (b # rest) = Some (b, rest)"

fun istream_uint16 :: "IStream \<Rightarrow> (uint16_t \<times> IStream) option" where
  "istream_uint16 (lo # hi # rest) = Some (uint16_le lo hi, rest)"
| "istream_uint16 _ = None"

text \<open>\<open>ros::serialization::OStream\<close>: the buffer and the write position. \<open>advance\<close> raises
  \<open>StreamOverrunException\<close> (here \<open>None\<close>) when the position would pass the end.\<close>

type_synonym OStream = "uint8_t list \<times> nat"

definition ostream_advance :: "nat \<Rightarrow> OStream \<Rightarrow> OStream option" where
  "ostream_advance n os =
     (case os of (buf, pos) \<Rightarrow> if pos + n > length buf then None else Some (buf, pos + n))"

definition ostream_write :: "uint8_t list \<Rightarrow> OStream \<Rightarrow> OStream option" where
  "ostream_write bs os =
     (case os of (buf, pos) \<Rightarrow>
        (case ostream_advance (length bs) os of
           None \<Rightarrow> None
         | Some (_, pos') \<Rightarrow> Some (take pos buf @ bs @ drop pos' buf, pos')))"

definition bytes_uint16 :: "uint16_t \<Rightarrow> uint8_t list" where
  "bytes_uint16 w = [ucast w, ucast (drop_bit 8 w)]"

definition bytes_uint32 :: "uint32_t \<Rightarrow> uint8_t list" where
  "bytes_uint32 w = [ucast w, ucast (drop_bit 8 w), ucast (drop_bit 16 w), ucast (drop_bit 24 w)]"

subsection \<open>message_checksum (lines 247-253)\<close>

text \<open>The loop counter \<open>i\<close> is a \<open>uint16_t\<close> compared with the \<open>uint32_t\<close> stream length, so on
  a stream of 65536 bytes or more it wraps around and the loop never ends.\<close>

partial_function (option) checksum_loop ::
    "uint8_t list \<Rightarrow> uint16_t \<Rightarrow> uint8_t \<Rightarrow> uint8_t option" where
  "checksum_loop data i sum8 =
     (if unat i < length data then checksum_loop data (i + 1) (sum8 + data ! unat i)
      else Some sum8)"

declare checksum_loop.simps [code]

text \<open>The initial value \<open>(topic_id >> 8) + topic_id + (getLength() >> 8) + getLength()\<close> is
  computed in \<open>uint32_t\<close> and truncated to \<open>uint8_t\<close> by the assignment.\<close>

definition checksum_init :: "nat \<Rightarrow> uint16_t \<Rightarrow> uint8_t" where
  "checksum_init len topic_id =
     of_nat ((unat topic_id div 256 + unat topic_id + len div 256 + len) mod 2 ^ 32)"

definition message_checksum :: "IStream \<Rightarrow> uint16_t \<Rightarrow> uint8_t option" where
  "message_checksum stream topic_id =
     (case checksum_loop stream 0 (checksum_init (length stream) topic_id) of
        None \<Rightarrow> None
      | Some sum8 \<Rightarrow> Some (255 - sum8))"

subsection \<open>The data members of Session\<close>

datatype Version = PROTOCOL_UNKNOWN | PROTOCOL_VER1 | PROTOCOL_VER2

text \<open>\<open>boost::system::error_code\<close> values the callbacks compare against; \<open>other_error\<close> stands
  for every remaining non-zero code (end of file, connection reset, ...).\<close>

datatype error_code = success | no_buffer_space | operation_aborted | other_error nat

text \<open>\<open>rosserial_msgs::TopicInfo\<close>, the topic descriptor a registration message carries.\<close>

record TopicInfo =
  TopicInfo_topic_id :: uint16_t
  topic_name :: "uint8_t list"
  message_type :: "uint8_t list"
  md5sum :: "uint8_t list"
  buffer_size :: uint32_t

text \<open>The continuations handed to \<open>buffer_.read\<close> (\<open>boost::bind(&Session::read_..., this, _1)\<close>)
  and the entries of \<open>callbacks\<close>.\<close>

datatype read_callback =
    Bind_read_sync_first
  | Bind_read_sync_second
  | Bind_read_id_length
  | Bind_read_body uint16_t

datatype handler =
    Bind_setup_publisher
  | Bind_setup_subscriber
  | Bind_handle_time
  | Bind_Publisher_handle TopicInfo

datatype severity = DEBUG | INFO | WARN | ERROR

text \<open>One constructor per log statement of the file, with the values it prints.\<close>

datatype message =
    Starting_session
  | Ending_session
  | Client_protocol_VER1
  | Client_protocol_VER2
  | Bad_header_length_checksum
  | Received_header nat nat
  | Declared_length_in_excess nat nat
  | Received_body nat nat
  | Bad_checksum nat nat
  | Overrun_parsing_setup_message
  | Firmware_pre_Groovy
  | Overrun_parsing_user_message
  | Unrecognized_topicId nat
  | Overrun_on_receive_buffer
  | Socket_asio_error error_code
  | Stopping_due_to_read_error
  | Stopping_due_to_write_error
  | Aborting_write_message
  | Sync_with_device_lost
  | Sending_request_topics

datatype event =
    Log severity message
  | Buffer_read nat read_callback
  | Callback uint16_t handler "uint8_t list"
  | Published TopicInfo "uint8_t list"
  | Async_write "uint8_t list"
  | Timer_cancel nat
  | Timer_async_wait nat
  | Socket_cancel
  | Delete_this

text \<open>
  \<open>sync_timer\<close> is the list of asynchronous waits outstanding on the
  \<open>boost::asio::deadline_timer\<close>, each with the interval (in milliseconds) it was armed with.
  \<open>pending\<close> is the request the buffered reader \<open>buffer_\<close> is serving. A collaborator
  (\<open>Publisher\<close>, \<open>Subscriber\<close>) is represented by the arguments of its constructor.
  \<open>error_once\<close> is the flag behind \<open>ROS_ERROR_ONCE\<close>: a function-local static, shared
  by every \<open>Session\<close> of the process and never reset. It is threaded through the session
  that runs; a new session starts with the value the process has reached
  (\<open>ERROR_ONCE_hit\<close> below), and what other sessions do to it meanwhile is outside this
  model. The members are named as in the class, without the trailing underscore.
\<close>

record Session =
  client_version :: Version
  timeout_interval :: nat
  attempt_interval :: nat
  sync_timer :: "nat list"
  pending :: "(nat \<times> read_callback) option"
  callbacks :: "uint16_t \<rightharpoonup> handler"
  publishers :: "uint16_t \<rightharpoonup> TopicInfo"
  subscribers :: "uint16_t \<rightharpoonup> TopicInfo \<times> Version"
  error_once :: bool
  deleted :: bool
  trace :: "event list"

text \<open>
  What the file takes from headers that are not part of it: the reserved topic ids of
  \<open>rosserial_msgs::TopicInfo\<close>, the generated deserializer of \<open>TopicInfo\<close> (\<open>None\<close> when it
  raises \<open>StreamOverrunException\<close>), the clock \<open>ros::Time::now()\<close> (seconds and
  nanoseconds), and whether \<open>Publisher::handle\<close> decodes a stream (\<open>False\<close> when it raises
  \<open>StreamOverrunException\<close>). \<open>ERROR_ONCE_hit\<close> is the process state a session is born into:
  whether the \<open>ROS_ERROR_ONCE\<close> line of \<open>read_body\<close> has already been printed.
\<close>

record env =
  ID_PUBLISHER :: uint16_t
  ID_SUBSCRIBER :: uint16_t
  ID_TIME :: uint16_t
  read_TopicInfo :: "uint8_t list \<Rightarrow> TopicInfo option"
  Time_now :: "uint32_t \<times> uint32_t"
  Publisher_decodes :: "TopicInfo \<Rightarrow> uint8_t list \<Rightarrow> bool"
  ERROR_ONCE_hit :: bool

datatype outcome = Returns Session | Throws exn Session

definition buffer_max :: nat where
  "buffer_max = 1023"

definition INT16_MAX :: nat where
  "INT16_MAX = 0x7fff"

definition ros_log :: "severity \<Rightarrow> message \<Rightarrow> Session \<Rightarrow> Session" where
  "ros_log sev msg s = s\<lparr>trace := trace s @ [Log sev msg]\<rparr>"

text \<open>The constructor (lines 21-36).\<close>

definition Session_new :: "env \<Rightarrow> Session" where
  "Session_new e =
     \<lparr>client_version = PROTOCOL_UNKNOWN,
      timeout_interval = 5000,
      attempt_interval = 1000,
      sync_timer = [],
      pending = None,
      callbacks = (((Map.empty(ID_PUBLISHER e \<mapsto> Bind_setup_publisher))
                               (ID_SUBSCRIBER e \<mapsto> Bind_setup_subscriber))
                               (ID_TIME e \<mapsto> Bind_handle_time)),
      publishers = Map.empty,
      subscribers = Map.empty,
      error_once = ERROR_ONCE_hit e,
      deleted = False,
      trace = []\<rparr>"

text \<open>\<open>delete this\<close>: the destructor logs, then the members are destroyed: the maps release
  every collaborator, the timer drops its waits, the reader drops its request.\<close>

definition delete_this :: "Session \<Rightarrow> Session" where
  "delete_this s =
     (ros_log INFO Ending_session (s\<lparr>trace := trace s @ [Delete_this]\<rparr>))
       \<lparr>sync_timer := [], pending := None, callbacks := Map.empty,
        publishers := Map.empty, subscribers := Map.empty, deleted := True\<rparr>"

subsection \<open>Receiving messages (lines 66-169)\<close>

text \<open>
  Modelled from the spec: the buffered reader \<open>AsyncReadBuffer\<close> (AsyncReadBuffer.h is not
  among the sources). \<open>request(n, continuation)\<close>: if \<open>n\<close> exceeds the reader's fixed
  capacity the request fails immediately with the "no buffer space" condition, through the
  error callback the reader was constructed with (\<open>read_failed\<close>), and the continuation is
  not invoked; otherwise the request is recorded and the continuation will be invoked
  with a view over exactly \<open>n\<close> bytes.

  \<open>buffer_read\<close>, \<open>read_failed\<close> (lines 156-169) and \<open>read_sync_header\<close> (lines 66-68) call
  each other, so they are defined together.
\<close>

function buffer_read :: "nat \<Rightarrow> read_callback \<Rightarrow> Session \<Rightarrow> Session"
  and read_failed :: "error_code \<Rightarrow> Session \<Rightarrow> Session"
  and read_sync_header :: "Session \<Rightarrow> Session" where
  "buffer_read n cb s =
     (if n > buffer_max then read_failed no_buffer_space s
      else s\<lparr>pending := Some (n, cb), trace := trace s @ [Buffer_read n cb]\<rparr>)"
| "read_failed error s =
     (if error = no_buffer_space then
        read_sync_header (ros_log WARN Overrun_on_receive_buffer s)
      else if error \<noteq> success then
        delete_this
          (ros_log WARN Stopping_due_to_read_error
            (ros_log DEBUG (Socket_asio_error error)
              (s\<lparr>trace := trace s @ [Socket_cancel]\<rparr>)))
      else s)"
| "read_sync_header s = buffer_read 1 Bind_read_sync_first s"
  by pat_completeness auto
termination
  by (relation "measure (\<lambda>x. case x of
          Inl (n, cb, s) \<Rightarrow> if n > buffer_max then 3 else 0
        | Inr (Inl (error, s)) \<Rightarrow> 2
        | Inr (Inr s) \<Rightarrow> 1)")
     (auto simp: buffer_max_def)

subsection \<open>Sending messages (lines 173-217)\<close>

text \<open>\<open>write_buffer\<close> hands the buffer to \<open>boost::asio::async_write\<close> on the socket.
  \<open>io_service::dispatch\<close> runs it at once on the connection's own thread, which is the only
  thread of this model.\<close>

definition write_buffer :: "uint8_t list \<Rightarrow> Session \<Rightarrow> Session" where
  "write_buffer buffer s = s\<lparr>trace := trace s @ [Async_write buffer]\<rparr>"

definition write_cb :: "error_code \<Rightarrow> Session \<Rightarrow> Session" where
  "write_cb error s =
     (if error \<noteq> success then
        delete_this (ros_log WARN Stopping_due_to_write_error
                      (ros_log DEBUG (Socket_asio_error error) s))
      else s)"

text \<open>
  \<open>length\<close> is a \<open>uint16_t\<close>: the sum wraps at \<open>2 ^ 16\<close>. The buffer is a zero-filled vector
  of \<open>length\<close> bytes, \<open>buffer_ptr->at(0)\<close> raises \<open>out_of_range\<close> on an empty one, and each
  stream write raises \<open>StreamOverrunException\<close> past its end. The \<open>default\<close> branch of the
  \<open>switch\<close> logs and falls through to the code below it.
\<close>

definition write_message ::
    "uint8_t list \<Rightarrow> uint16_t \<Rightarrow> Version \<Rightarrow> Session \<Rightarrow> outcome option" where
  "write_message message topic_id version s =
     (let overhead_bytes = (case version of
            PROTOCOL_VER1 \<Rightarrow> 7 | PROTOCOL_VER2 \<Rightarrow> 8 | PROTOCOL_UNKNOWN \<Rightarrow> (0::nat));
          s1 = (case version of
            PROTOCOL_UNKNOWN \<Rightarrow> ros_log WARN Aborting_write_message s | _ \<Rightarrow> s);
          length16 = (overhead_bytes + length message) mod 2 ^ 16;
          buffer = replicate length16 (0::uint8_t)
      in case message_checksum message topic_id of
           None \<Rightarrow> None
         | Some checksum \<Rightarrow>
             if length16 = 0 then Some (Throws out_of_range s1)
             else (case ostream_write (bytes_uint16 0xffff) (buffer, 0)
                          \<bind> ostream_write (bytes_uint16 topic_id)
                          \<bind> ostream_write (bytes_uint16 (of_nat (length message)))
                          \<bind> ostream_write message
                          \<bind> ostream_write [checksum] of
                     None \<Rightarrow> Some (Throws StreamOverrunException s1)
                   | Some (buffer', _) \<Rightarrow> Some (Returns (write_buffer buffer' s1))))"

subsection \<open>Sync watchdog (lines 220-245)\<close>

text \<open>\<open>deadline_timer::cancel\<close> aborts every outstanding wait; \<open>expires_from_now\<close> sets the
  expiry (no wait is left for it to abort); \<open>async_wait\<close> adds one wait.\<close>

definition set_sync_timeout :: "nat \<Rightarrow> Session \<Rightarrow> Session" where
  "set_sync_timeout interval s =
     (let s1 = s\<lparr>sync_timer := [],
                  trace := trace s @ [Timer_cancel (length (sync_timer s))]\<rparr>
      in s1\<lparr>sync_timer := sync_timer s1 @ [interval],
             trace := trace s1 @ [Timer_async_wait interval]\<rparr>)"

definition request_topics :: "env \<Rightarrow> Session \<Rightarrow> outcome option" where
  "request_topics e s =
     write_message [] (ID_PUBLISHER e) PROTOCOL_VER1 (ros_log DEBUG Sending_request_topics s)"

definition attempt_sync :: "env \<Rightarrow> Session \<Rightarrow> outcome option" where
  "attempt_sync e s =
     (case request_topics e s of
        None \<Rightarrow> None
      | Some (Throws x s1) \<Rightarrow> Some (Throws x s1)
      | Some (Returns s1) \<Rightarrow> Some (Returns (set_sync_timeout (attempt_interval s1) s1)))"

definition sync_timeout :: "env \<Rightarrow> error_code \<Rightarrow> Session \<Rightarrow> outcome option" where
  "sync_timeout e error s =
     (if error = operation_aborted then Some (Returns s)
      else attempt_sync e (ros_log WARN Sync_with_device_lost s))"

subsection \<open>Received message handlers (lines 260-297)\<close>

definition setup_publisher :: "env \<Rightarrow> IStream \<Rightarrow> Session \<Rightarrow> outcome" where
  "setup_publisher e stream s =
     (case read_TopicInfo e stream of
        None \<Rightarrow> Throws StreamOverrunException s
      | Some topic_info \<Rightarrow>
          Returns (set_sync_timeout (timeout_interval s)
            (s\<lparr>publishers := (publishers s)(TopicInfo_topic_id topic_info \<mapsto> topic_info),
               callbacks := (callbacks s)(TopicInfo_topic_id topic_info \<mapsto>
                                Bind_Publisher_handle topic_info)\<rparr>)))"

definition setup_subscriber :: "env \<Rightarrow> IStream \<Rightarrow> Session \<Rightarrow> outcome" where
  "setup_subscriber e stream s =
     (case read_TopicInfo e stream of
        None \<Rightarrow> Throws StreamOverrunException s
      | Some topic_info \<Rightarrow>
          Returns (set_sync_timeout (timeout_interval s)
            (s\<lparr>subscribers := (subscribers s)(TopicInfo_topic_id topic_info \<mapsto>
                                  (topic_info, client_version s))\<rparr>)))"

definition handle_time :: "env \<Rightarrow> IStream \<Rightarrow> Session \<Rightarrow> outcome option" where
  "handle_time e stream s =
     (let message = bytes_uint32 (fst (Time_now e)) @ bytes_uint32 (snd (Time_now e))
      in case write_message message (ID_TIME e) (client_version s) s of
           None \<Rightarrow> None
         | Some (Throws x s1) \<Rightarrow> Some (Throws x s1)
         | Some (Returns s1) \<Rightarrow> Some (Returns (set_sync_timeout (timeout_interval s1) s1)))"

text \<open>
  Modelled from the spec: \<open>Publisher::handle\<close> (topic_handlers.h is not among the sources),
  the dispatch entry that "forwards future payloads on that topic id to the collaborator";
  a handler can report "a decode/overrun failure".
\<close>

definition Publisher_handle :: "env \<Rightarrow> TopicInfo \<Rightarrow> IStream \<Rightarrow> Session \<Rightarrow> outcome" where
  "Publisher_handle e pub stream s =
     (if Publisher_decodes e pub stream
      then Returns (s\<lparr>trace := trace s @ [Published pub stream]\<rparr>)
      else Throws StreamOverrunException s)"

text \<open>Calling an entry of \<open>callbacks\<close>.\<close>

fun call :: "env \<Rightarrow> handler \<Rightarrow> IStream \<Rightarrow> Session \<Rightarrow> outcome option" where
  "call e Bind_setup_publisher stream s = Some (setup_publisher e stream s)"
| "call e Bind_setup_subscriber stream s = Some (setup_subscriber e stream s)"
| "call e Bind_handle_time stream s = handle_time e stream s"
| "call e (Bind_Publisher_handle pub) stream s = Some (Publisher_handle e pub stream s)"

subsection \<open>The receive callbacks (lines 70-154)\<close>

definition read_sync_first :: "IStream \<Rightarrow> Session \<Rightarrow> outcome" where
  "read_sync_first stream s =
     (case istream_uint8 stream of
        None \<Rightarrow> Throws StreamOverrunException s
      | Some (sync, _) \<Rightarrow>
          if sync = 0xff then Returns (buffer_read 1 Bind_read_sync_second s)
          else Returns (read_sync_header s))"

definition read_sync_second :: "IStream \<Rightarrow> Session \<Rightarrow> outcome" where
  "read_sync_second stream s =
     (case istream_uint8 stream of
        None \<Rightarrow> Throws StreamOverrunException s
      | Some (sync, _) \<Rightarrow>
          let s1 = (if client_version s = PROTOCOL_UNKNOWN then
                      if sync = 0xff then
                        (ros_log WARN Client_protocol_VER1 s)\<lparr>client_version := PROTOCOL_VER1\<rparr>
                      else if sync = 0xfe then
                        (ros_log INFO Client_protocol_VER2 s)\<lparr>client_version := PROTOCOL_VER2\<rparr>
                      else s
                    else s)
          in if sync = 0xff \<and> client_version s1 = PROTOCOL_VER1 then
               Returns (buffer_read 4 Bind_read_id_length s1)
             else if sync = 0xfe \<and> client_version s1 = PROTOCOL_VER2 then
               Returns (buffer_read 5 Bind_read_id_length s1)
             else Returns (read_sync_header s1))"

text \<open>\<open>255 - (((length & 255) + (length >> 8)) % 256)\<close>, computed in \<open>int\<close>.\<close>

definition length_checksum_computed :: "uint16_t \<Rightarrow> uint8_t" where
  "length_checksum_computed len =
     of_nat (255 - (unat (len AND 255) + unat (drop_bit 8 len)) mod 256)"

text \<open>Lines 115-125: what \<open>read_id_length\<close> does once the header is parsed and, for
  VER2, its length checksum has matched. \<open>length + 1\<close> is computed in \<open>int\<close>.\<close>

definition read_id_length_checked :: "uint16_t \<Rightarrow> uint16_t \<Rightarrow> Session \<Rightarrow> Session" where
  "read_id_length_checked topic_id len s =
     (let s1 = ros_log DEBUG (Received_header (unat len) (unat topic_id)) s
      in if unat len > INT16_MAX then
           read_sync_header (ros_log WARN (Declared_length_in_excess (unat len) INT16_MAX) s1)
         else buffer_read (unat len + 1) (Bind_read_body topic_id) s1)"

definition read_id_length :: "IStream \<Rightarrow> Session \<Rightarrow> outcome" where
  "read_id_length stream s =
     (case istream_uint16 stream of
        None \<Rightarrow> Throws StreamOverrunException s
      | Some (topic_id, stream1) \<Rightarrow>
      (case istream_uint16 stream1 of
        None \<Rightarrow> Throws StreamOverrunException s
      | Some (len, stream2) \<Rightarrow>
          if client_version s = PROTOCOL_VER2 then
            (case istream_uint8 stream2 of
               None \<Rightarrow> Throws StreamOverrunException s
             | Some (length_checksum, _) \<Rightarrow>
                 if length_checksum \<noteq> length_checksum_computed len then
                   Returns (read_sync_header (ros_log WARN Bad_header_length_checksum s))
                 else Returns (read_id_length_checked topic_id len s))
          else Returns (read_id_length_checked topic_id len s)))"

text \<open>The \<open>catch\<close> clause of \<open>read_body\<close> (lines 138-145).\<close>

definition catch_overrun :: "uint16_t \<Rightarrow> Session \<Rightarrow> Session" where
  "catch_overrun topic_id s =
     (if unat topic_id < 100 then
        let s1 = ros_log ERROR Overrun_parsing_setup_message s
        in if error_once s1 then s1
           else (ros_log ERROR Firmware_pre_Groovy s1)\<lparr>error_once := True\<rparr>
      else ros_log WARN Overrun_parsing_user_message s)"

text \<open>\<open>stream\<close> is the view the reader delivered: the \<open>length + 1\<close> bytes requested by
  \<open>read_id_length\<close>. \<open>checksum_stream\<close> is a second stream over the same bytes, so
  \<open>stream\<close> itself is still unread when the handler is called with it.\<close>

definition read_body :: "env \<Rightarrow> IStream \<Rightarrow> uint16_t \<Rightarrow> Session \<Rightarrow> outcome option" where
  "read_body e stream topic_id s =
     (let s1 = ros_log DEBUG (Received_body (length stream) (unat topic_id)) s
      in case message_checksum stream topic_id of
           None \<Rightarrow> None
         | Some c \<Rightarrow>
             if c \<noteq> 0xff then
               Some (Returns (read_sync_header
                 (ros_log WARN (Bad_checksum (unat topic_id) (length stream)) s1)))
             else (case callbacks s1 topic_id of
                     Some h \<Rightarrow>
                       (case call e h stream
                               (s1\<lparr>trace := trace s1 @ [Callback topic_id h stream]\<rparr>) of
                          None \<Rightarrow> None
                        | Some (Returns s2) \<Rightarrow> Some (Returns (read_sync_header s2))
                        | Some (Throws StreamOverrunException s2) \<Rightarrow>
                            Some (Returns (read_sync_header (catch_overrun topic_id s2)))
                        | Some (Throws x s2) \<Rightarrow> Some (Throws x s2))
                   | None \<Rightarrow>
                       Some (Returns (read_sync_header
                         (ros_log WARN (Unrecognized_topicId (unat topic_id)) s1)))))"

definition start :: "env \<Rightarrow> Session \<Rightarrow> outcome option" where
  "start e s =
     (case attempt_sync e (ros_log INFO Starting_session s) of
        None \<Rightarrow> None
      | Some (Throws x s1) \<Rightarrow> Some (Throws x s1)
      | Some (Returns s1) \<Rightarrow> Some (Returns (read_sync_header s1)))"

subsection \<open>Running the receive state machine on transport bytes\<close>

text \<open>
  Modelled from the spec: the buffered reader delivering data. When the bytes of the
  pending request \<open>(n, continuation)\<close> are available, the continuation is invoked with a view
  over exactly \<open>n\<close> bytes; otherwise the reader waits for the transport. \<open>run e bytes s\<close>
  feeds \<open>bytes\<close> to the session and returns it at the point where the reader has to wait
  (or where an exception leaves the callback). The session never requests 0 bytes
  (lemmas \<open>request_ok_positive\<close> and \<open>run_ok\<close> below); the test on \<open>n = 0\<close> only makes
  the recursion well-founded.
\<close>

fun deliver :: "env \<Rightarrow> read_callback \<Rightarrow> IStream \<Rightarrow> Session \<Rightarrow> outcome option" where
  "deliver e Bind_read_sync_first stream s = Some (read_sync_first stream s)"
| "deliver e Bind_read_sync_second stream s = Some (read_sync_second stream s)"
| "deliver e Bind_read_id_length stream s = Some (read_id_length stream s)"
| "deliver e (Bind_read_body topic_id) stream s = read_body e stream topic_id s"

function run :: "env \<Rightarrow> uint8_t list \<Rightarrow> Session \<Rightarrow> outcome option" where
  "run e bytes s =
     (case pending s of
        None \<Rightarrow> Some (Returns s)
      | Some (n, cb) \<Rightarrow>
          if n = 0 \<or> length bytes < n then Some (Returns s)
          else (case deliver e cb (take n bytes) s of
                  Some (Returns s') \<Rightarrow> run e (drop n bytes) s'
                | r \<Rightarrow> r))"
  by pat_completeness auto
termination
  by (relation "measure (\<lambda>(e, bytes, s). length bytes)") auto

declare run.simps [simp del]
declare buffer_read.simps [simp del] read_failed.simps [simp del] read_sync_header.simps [simp del]

subsection \<open>Observations on sessions\<close>

text \<open>The handler calls and the socket writes recorded in a trace, in order.\<close>

fun dispatched :: "event list \<Rightarrow> (uint16_t \<times> handler \<times> uint8_t list) list" where
  "dispatched [] = []"
| "dispatched (Callback topic_id h stream # evs) = (topic_id, h, stream) # dispatched evs"
| "dispatched (_ # evs) = dispatched evs"

fun written :: "event list \<Rightarrow> uint8_t list list" where
  "written [] = []"
| "written (Async_write buffer # evs) = buffer # written evs"
| "written (_ # evs) = written evs"

text \<open>The requests the session issues: one byte for a sync byte, four (VER1) or five
  (VER2) bytes for a header, and a body that fits the reader.\<close>

fun request_ok :: "Version \<Rightarrow> nat \<Rightarrow> read_callback \<Rightarrow> bool" where
  "request_ok v n Bind_read_sync_first = (n = 1)"
| "request_ok v n Bind_read_sync_second = (n = 1)"
| "request_ok v n Bind_read_id_length =
     ((v = PROTOCOL_VER1 \<and> n = 4) \<or> (v = PROTOCOL_VER2 \<and> n = 5))"
| "request_ok v n (Bind_read_body topic_id) = (1 \<le> n \<and> n \<le> buffer_max)"

definition pending_ok :: "Session \<Rightarrow> bool" where
  "pending_ok s =
     (case pending s of None \<Rightarrow> True | Some (n, cb) \<Rightarrow> request_ok (client_version s) n cb)"

text \<open>The timer's side of the watchdog: the oldest outstanding wait completes and its
  handler \<open>sync_timeout\<close> is called with the success code; \<open>expiries e n\<close> is \<open>n\<close> such
  expiries in a row, with nothing received in between.\<close>

definition timer_expires :: "env \<Rightarrow> Session \<Rightarrow> outcome option" where
  "timer_expires e s =
     (case sync_timer s of
        [] \<Rightarrow> Some (Returns s)
      | w # ws \<Rightarrow> sync_timeout e success (s\<lparr>sync_timer := ws\<rparr>))"

fun expiries :: "env \<Rightarrow> nat \<Rightarrow> Session \<Rightarrow> outcome option" where
  "expiries e 0 s = Some (Returns s)"
| "expiries e (Suc n) s =
     (case timer_expires e s of
        Some (Returns s') \<Rightarrow> expiries e n s'
      | r \<Rightarrow> r)"

text \<open>The frame \<open>request_topics\<close> sends: an empty message on the publisher topic, VER1.\<close>

definition probe :: "env \<Rightarrow> uint8_t list" where
  "probe e = bytes_uint16 0xffff @ bytes_uint16 (ID_PUBLISHER e) @ bytes_uint16 0
             @ [255 - checksum_init 0 (ID_PUBLISHER e)]"

text \<open>
  An instance of the external interface, for running the model on concrete inputs: the
  reserved ids of TopicInfo.msg (publisher 0, subscriber 1, time 10), a deserializer that
  reads the leading \<open>uint16\<close> topic id of a descriptor, a fixed clock, publishers that
  accept every stream, and a process that has not printed the once-only line yet.
\<close>

definition ros_env :: env where
  "ros_env =
     \<lparr>ID_PUBLISHER = 0, ID_SUBSCRIBER = 1, ID_TIME = 10,
      read_TopicInfo = (\<lambda>stream. case istream_uint16 stream of
          None \<Rightarrow> None
        | Some (t, _) \<Rightarrow> Some \<lparr>TopicInfo_topic_id = t, topic_name = [], message_type = [],
                                md5sum = [], buffer_size = 0\<rparr>),
      Time_now = (1, 2),
      Publisher_decodes = (\<lambda>pub stream. True),
      ERROR_ONCE_hit = False\<rparr>"

text \<open>A session that has been constructed and started: the first probe is sent, the retry
  timer is armed and the reader awaits the first sync byte.\<close>

definition started :: "env \<Rightarrow> Session" where
  "started e =
     (Session_new e)
       \<lparr>sync_timer := [1000],
        pending := Some (1, Bind_read_sync_first),
        trace := [Log INFO Starting_session, Log DEBUG Sending_request_topics,
                  Async_write (probe e), Timer_cancel 0, Timer_async_wait 1000,
                  Buffer_read 1 Bind_read_sync_first]\<rparr>"

text \<open>The session an outcome carries.\<close>

fun session_of :: "outcome \<Rightarrow> Session" where
  "session_of (Returns s) = s"
| "session_of (Throws x s) = s"

section \<open>Properties\<close>

subsection \<open>The checksum\<close>

lemma checksum_loop_sum:
  "length data < 65536 \<Longrightarrow> unat i \<le> length data \<Longrightarrow>
   checksum_loop data i a = Some (a + sum_list (drop (unat i) data))"
proof (induction "length data - unat i" arbitrary: i a)
  case 0
  then have "unat i = length data" by simp
  then show ?case by (subst checksum_loop.simps) simp
next
  case (Suc k)
  then have lt: "unat i < length data" by simp
  with Suc.prems have "unat i < 65535" by simp
  then have u: "unat (i + 1) = Suc (unat i)"
    by (simp add: unat_word_ariths)
  have "checksum_loop data (i + 1) (a + data ! unat i)
          = Some (a + data ! unat i + sum_list (drop (unat (i + 1)) data))"
    using Suc.hyps(1)[of "i + 1" "a + data ! unat i"] Suc.hyps(2) Suc.prems lt u by simp
  moreover have "drop (unat i) data = data ! unat i # drop (Suc (unat i)) data"
    using lt by (simp add: Cons_nth_drop_Suc)
  ultimately show ?case
    using lt u by (subst checksum_loop.simps) (simp add: add.assoc)
qed

text \<open>On a stream shorter than 65536 bytes \<open>message_checksum\<close> returns, with 255 minus the
  sum of the header terms and of every byte.\<close>

lemma message_checksum_sum:
  assumes "length stream < 65536"
  shows "message_checksum stream topic_id
           = Some (255 - (checksum_init (length stream) topic_id + sum_list stream))"
proof -
  have "checksum_loop stream 0 (checksum_init (length stream) topic_id)
          = Some (checksum_init (length stream) topic_id
                  + sum_list (drop (unat (0::uint16_t)) stream))"
    by (rule checksum_loop_sum) (use assms in simp_all)
  then show ?thesis unfolding message_checksum_def by simp
qed

lemma checksum_init_8:
  "checksum_init len topic_id
     = of_nat (unat topic_id div 256 + unat topic_id + len div 256 + len)"
  unfolding checksum_init_def
  by (rule iffD2[OF word_of_nat_eq_iff]) (simp add: take_bit_eq_mod mod_mod_cancel)

lemma checksum_init_Suc:
  assumes "len mod 256 \<noteq> 255"
  shows "checksum_init (Suc len) topic_id = checksum_init len topic_id + 1"
proof -
  from assms have "Suc len div 256 = len div 256" by (simp add: div_Suc mod_Suc)
  then show ?thesis by (simp add: checksum_init_8)
qed

lemma checksum_init_Suc_carry:
  assumes "len mod 256 = 255"
  shows "checksum_init (Suc len) topic_id = checksum_init len topic_id + 2"
proof -
  from assms have "Suc len div 256 = Suc (len div 256)" by (simp add: div_Suc mod_Suc)
  then show ?thesis by (simp add: checksum_init_8)
qed

subsection \<open>Words and streams\<close>

lemma unat_drop_bit_8: "unat (drop_bit 8 (w::uint16_t)) = unat w div 256"
  by (simp add: drop_bit_eq_div unat_div)

lemma unat_and_255: "unat ((w::uint16_t) AND 255) = unat w mod 256"
proof -
  have "(255::uint16_t) = mask 8" by (simp add: mask_eq_exp_minus_1)
  then have "w AND 255 = take_bit 8 w" by (simp only: take_bit_eq_mask)
  then show ?thesis by (simp add: take_bit_eq_mod unat_mod)
qed

lemma uint16_le_bytes: "uint16_le (ucast w) (ucast (drop_bit 8 w)) = w"
  unfolding uint16_le_def
  by (rule bit_word_eqI) (auto simp: bit_simps)

lemma ostream_write_eq:
  "ostream_write bs (buf, pos) =
     (if pos + length bs > length buf then None
      else Some (take pos buf @ bs @ drop (pos + length bs) buf, pos + length bs))"
  by (simp add: ostream_write_def ostream_advance_def)

lemma ostream_write_at_end:
  "length bs \<le> k \<Longrightarrow>
   ostream_write bs (pre @ replicate k 0, length pre)
     = Some (pre @ bs @ replicate (k - length bs) 0, length pre + length bs)"
  by (simp add: ostream_write_eq)

lemma ostream_chain_fits:
  assumes "7 + length m \<le> k"
  shows "ostream_write [a1, a2] (replicate k 0, 0)
           \<bind> ostream_write [b1, b2]
           \<bind> ostream_write [c1, c2]
           \<bind> ostream_write m
           \<bind> ostream_write [x]
         = Some ([a1, a2, b1, b2, c1, c2] @ m @ [x] @ replicate (k - (7 + length m)) 0,
                 7 + length m)"
proof -
  have 1: "ostream_write [a1, a2] (replicate k 0, 0) = Some ([a1, a2] @ replicate (k - 2) 0, 2)"
    using assms ostream_write_at_end[of "[a1, a2]" k "[]"] by (simp add: eval_nat_numeral)
  have 2: "ostream_write [b1, b2] ([a1, a2] @ replicate (k - 2) 0, 2)
             = Some ([a1, a2, b1, b2] @ replicate (k - 4) 0, 4)"
    using assms ostream_write_at_end[of "[b1, b2]" "k - 2" "[a1, a2]"] by (simp add: eval_nat_numeral)
  have 3: "ostream_write [c1, c2] ([a1, a2, b1, b2] @ replicate (k - 4) 0, 4)
             = Some ([a1, a2, b1, b2, c1, c2] @ replicate (k - 6) 0, 6)"
    using assms ostream_write_at_end[of "[c1, c2]" "k - 4" "[a1, a2, b1, b2]"] by (simp add: eval_nat_numeral)
  have 4: "ostream_write m ([a1, a2, b1, b2, c1, c2] @ replicate (k - 6) 0, 6)
             = Some (([a1, a2, b1, b2, c1, c2] @ m) @ replicate (k - 6 - length m) 0,
                     length ([a1, a2, b1, b2, c1, c2] @ m))"
    using assms ostream_write_at_end[of m "k - 6" "[a1, a2, b1, b2, c1, c2]"] by (simp add: eval_nat_numeral)
  have 5: "ostream_write [x] (([a1, a2, b1, b2, c1, c2] @ m) @ replicate (k - 6 - length m) 0,
                              length ([a1, a2, b1, b2, c1, c2] @ m))
             = Some ([a1, a2, b1, b2, c1, c2] @ m @ [x] @ replicate (k - (7 + length m)) 0,
                     7 + length m)"
    using assms ostream_write_at_end[of "[x]" "k - 6 - length m" "[a1, a2, b1, b2, c1, c2] @ m"]
    by (simp add: eval_nat_numeral)
  show ?thesis by (simp only: 1 2 3 4 5 Option.bind.simps)
qed

lemma ostream_write_length:
  "ostream_write bs (buf, pos) = Some (buf', pos') \<Longrightarrow> length buf' = length buf \<and> pos' = pos + length bs \<and> pos' \<le> length buf"
  by (auto simp: ostream_write_eq split: if_splits)

lemma ostream_chain_overrun:
  assumes "k < 6 + length m + 1"
  shows "ostream_write [a1, a2] (replicate k 0, 0)
           \<bind> ostream_write [b1, b2]
           \<bind> ostream_write [c1, c2]
           \<bind> ostream_write m
           \<bind> ostream_write [x]
         = None"
proof (rule ccontr)
  assume "\<not> ?thesis"
  then obtain r where r: "ostream_write [a1, a2] (replicate k 0, 0)
           \<bind> ostream_write [b1, b2]
           \<bind> ostream_write [c1, c2]
           \<bind> ostream_write m
           \<bind> ostream_write [x] = Some r" by auto
  then obtain o1 o2 o3 o4 where
    "ostream_write [a1, a2] (replicate k 0, 0) = Some o1"
    "ostream_write [b1, b2] o1 = Some o2"
    "ostream_write [c1, c2] o2 = Some o3"
    "ostream_write m o3 = Some o4"
    "ostream_write [x] o4 = Some r"
    by (auto simp: bind_eq_Some_conv)
  then have "7 + length m \<le> k"
    by (cases o1, cases o2, cases o3, cases o4, cases r) (auto dest!: ostream_write_length)
  with assms show False by simp
qed

subsection \<open>The reader requests in closed form\<close>

lemma read_sync_header_eq:
  "read_sync_header s
     = s\<lparr>pending := Some (1, Bind_read_sync_first),
         trace := trace s @ [Buffer_read 1 Bind_read_sync_first]\<rparr>"
  by (simp add: read_sync_header.simps buffer_read.simps buffer_max_def)

lemma read_failed_eq:
  "read_failed error s =
     (if error = no_buffer_space then
        s\<lparr>pending := Some (1, Bind_read_sync_first),
          trace := trace s @ [Log WARN Overrun_on_receive_buffer,
                              Buffer_read 1 Bind_read_sync_first]\<rparr>
      else if error \<noteq> success then
        s\<lparr>sync_timer := [], pending := None, callbacks := Map.empty,
          publishers := Map.empty, subscribers := Map.empty, deleted := True,
          trace := trace s @ [Socket_cancel, Log DEBUG (Socket_asio_error error),
                              Log WARN Stopping_due_to_read_error, Delete_this,
                              Log INFO Ending_session]\<rparr>
      else s)"
  by (simp add: read_failed.simps read_sync_header_eq ros_log_def delete_this_def)

lemma buffer_read_eq:
  "buffer_read n cb s =
     (if n > 1023 then
        s\<lparr>pending := Some (1, Bind_read_sync_first),
          trace := trace s @ [Log WARN Overrun_on_receive_buffer,
                              Buffer_read 1 Bind_read_sync_first]\<rparr>
      else s\<lparr>pending := Some (n, cb), trace := trace s @ [Buffer_read n cb]\<rparr>)"
  by (simp add: buffer_read.simps read_failed_eq buffer_max_def)

subsection \<open>write_message in closed form\<close>

lemma write_message_VER1:
  assumes "length message \<le> 65528"
  shows "write_message message topic_id PROTOCOL_VER1 s
           = Some (Returns (write_buffer
               (bytes_uint16 0xffff @ bytes_uint16 topic_id
                @ bytes_uint16 (of_nat (length message)) @ message
                @ [255 - (checksum_init (length message) topic_id + sum_list message)]) s))"
proof -
  have c: "message_checksum message topic_id
             = Some (255 - (checksum_init (length message) topic_id + sum_list message))"
    using assms by (intro message_checksum_sum) simp
  have k: "(7 + length message) mod 2 ^ 16 = 7 + length message"
    using assms by simp
  show ?thesis
    unfolding write_message_def Let_def
    by (simp only: c k Version.case option.case bytes_uint16_def
          ostream_chain_fits[OF order_refl]) simp
qed

lemma write_message_VER2:
  assumes "length message \<le> 65527"
  shows "write_message message topic_id PROTOCOL_VER2 s
           = Some (Returns (write_buffer
               (bytes_uint16 0xffff @ bytes_uint16 topic_id
                @ bytes_uint16 (of_nat (length message)) @ message
                @ [255 - (checksum_init (length message) topic_id + sum_list message), 0]) s))"
proof -
  have c: "message_checksum message topic_id
             = Some (255 - (checksum_init (length message) topic_id + sum_list message))"
    using assms by (intro message_checksum_sum) simp
  have k: "(8 + length message) mod 2 ^ 16 = 8 + length message"
    using assms by simp
  have f: "7 + length message \<le> 8 + length message" by simp
  show ?thesis
    unfolding write_message_def Let_def
    by (simp only: c k Version.case option.case bytes_uint16_def
          ostream_chain_fits[OF f]) simp
qed

lemma write_message_UNKNOWN:
  "write_message message topic_id PROTOCOL_UNKNOWN s = None
   \<or> write_message message topic_id PROTOCOL_UNKNOWN s
        = Some (Throws out_of_range (ros_log WARN Aborting_write_message s))
   \<or> write_message message topic_id PROTOCOL_UNKNOWN s
        = Some (Throws StreamOverrunException (ros_log WARN Aborting_write_message s))"
proof -
  have f: "(0 + length message) mod 2 ^ 16 < 6 + length message + 1"
    by (rule le_less_trans[OF mod_less_eq_dividend]) simp
  show ?thesis
    unfolding write_message_def Let_def
    by (cases "message_checksum message topic_id")
       (simp_all only: Version.case option.case bytes_uint16_def
          ostream_chain_overrun[OF f] if_split, simp_all)
qed

lemma write_message_UNKNOWN_short:
  assumes "length message < 65536"
  shows "write_message message topic_id PROTOCOL_UNKNOWN s
           = Some (Throws (if message = [] then out_of_range else StreamOverrunException)
                     (ros_log WARN Aborting_write_message s))"
proof -
  have c: "message_checksum message topic_id
             = Some (255 - (checksum_init (length message) topic_id + sum_list message))"
    using assms by (rule message_checksum_sum)
  have k: "(0 + length message) mod 2 ^ 16 = length message"
    using assms by simp
  have f: "length message < 6 + length message + 1" by simp
  show ?thesis
    unfolding write_message_def Let_def
    by (simp only: c k Version.case option.case bytes_uint16_def
          ostream_chain_overrun[OF f]) simp
qed

subsection \<open>The header callback in closed form\<close>

lemma length_checksum_computed_nat:
  "unat (length_checksum_computed len) = 255 - (unat len mod 256 + unat len div 256) mod 256"
proof -
  define X where "X = 255 - (unat len mod 256 + unat len div 256) mod 256"
  have lt: "X < 256" by (simp add: X_def)
  have "unat (of_nat X :: uint8_t) = X mod 2 ^ LENGTH(8)" by (rule unat_of_nat)
  also have "\<dots> = X" using lt by simp
  finally show ?thesis
    unfolding length_checksum_computed_def unat_and_255 unat_drop_bit_8 X_def .
qed

lemma read_id_length_VER1:
  "client_version s \<noteq> PROTOCOL_VER2 \<Longrightarrow>
   read_id_length [id_lo, id_hi, len_lo, len_hi] s
     = Returns (read_id_length_checked (uint16_le id_lo id_hi) (uint16_le len_lo len_hi) s)"
  by (simp add: read_id_length_def)

lemma read_id_length_VER2:
  "client_version s = PROTOCOL_VER2 \<Longrightarrow>
   read_id_length [id_lo, id_hi, len_lo, len_hi, lc] s
     = (if lc \<noteq> length_checksum_computed (uint16_le len_lo len_hi) then
          Returns (s\<lparr>pending := Some (1, Bind_read_sync_first),
                     trace := trace s @ [Log WARN Bad_header_length_checksum,
                                         Buffer_read 1 Bind_read_sync_first]\<rparr>)
        else Returns (read_id_length_checked (uint16_le id_lo id_hi) (uint16_le len_lo len_hi) s))"
  by (simp add: read_id_length_def read_sync_header_eq ros_log_def)

lemma read_id_length_checked_eq:
  "read_id_length_checked topic_id len s =
     (if unat len > 32767 then
        s\<lparr>pending := Some (1, Bind_read_sync_first),
          trace := trace s @ [Log DEBUG (Received_header (unat len) (unat topic_id)),
                              Log WARN (Declared_length_in_excess (unat len) 32767),
                              Buffer_read 1 Bind_read_sync_first]\<rparr>
      else if unat len \<ge> 1023 then
        s\<lparr>pending := Some (1, Bind_read_sync_first),
          trace := trace s @ [Log DEBUG (Received_header (unat len) (unat topic_id)),
                              Log WARN Overrun_on_receive_buffer,
                              Buffer_read 1 Bind_read_sync_first]\<rparr>
      else
        s\<lparr>pending := Some (unat len + 1, Bind_read_body topic_id),
          trace := trace s @ [Log DEBUG (Received_header (unat len) (unat topic_id)),
                              Buffer_read (unat len + 1) (Bind_read_body topic_id)]\<rparr>)"
  by (simp add: read_id_length_checked_def read_sync_header_eq buffer_read_eq ros_log_def
        INT16_MAX_def)

subsection \<open>Concrete header values\<close>

lemma uint16_le_40000: "uint16_le 0x40 0x9c = 40000"
  by (simp add: uint16_le_def)

lemma uint16_le_5: "uint16_le 5 0 = 5"
  by (simp add: uint16_le_def)

lemma uint16_le_42: "uint16_le 0x2a 0 = 42"
  by (simp add: uint16_le_def)

lemma lcc_40000: "length_checksum_computed 40000 = 0x23"
  by (simp add: length_checksum_computed_def)

lemma lcc_5: "length_checksum_computed 5 = 0xfa"
  by (simp add: length_checksum_computed_def)

subsection \<open>Handlers and the body callback\<close>

lemma dispatched_append: "dispatched (xs @ ys) = dispatched xs @ dispatched ys"
  by (induction xs rule: dispatched.induct) simp_all

lemma written_append: "written (xs @ ys) = written xs @ written ys"
  by (induction xs rule: written.induct) simp_all

lemma set_sync_timeout_eq:
  "set_sync_timeout interval s
     = s\<lparr>sync_timer := [interval],
         trace := trace s @ [Timer_cancel (length (sync_timer s)), Timer_async_wait interval]\<rparr>"
  by (simp add: set_sync_timeout_def Let_def)

lemma handle_time_outcome:
  "\<exists>s2. (handle_time e stream s = Some (Returns s2)
           \<or> handle_time e stream s = Some (Throws StreamOverrunException s2))
     \<and> client_version s2 = client_version s
     \<and> dispatched (trace s2) = dispatched (trace s)"
proof (cases "client_version s")
  case PROTOCOL_UNKNOWN
  then show ?thesis
    by (simp add: handle_time_def Let_def write_message_UNKNOWN_short bytes_uint32_def
          ros_log_def dispatched_append)
next
  case PROTOCOL_VER1
  then show ?thesis
    by (simp add: handle_time_def Let_def write_message_VER1 bytes_uint32_def write_buffer_def
          set_sync_timeout_eq dispatched_append)
next
  case PROTOCOL_VER2
  then show ?thesis
    by (simp add: handle_time_def Let_def write_message_VER2 bytes_uint32_def write_buffer_def
          set_sync_timeout_eq dispatched_append)
qed

lemma call_outcome:
  "\<exists>s2. (call e h stream s = Some (Returns s2)
           \<or> call e h stream s = Some (Throws StreamOverrunException s2))
     \<and> client_version s2 = client_version s
     \<and> dispatched (trace s2) = dispatched (trace s)"
proof (cases h)
  case Bind_setup_publisher
  then show ?thesis
    by (simp add: setup_publisher_def set_sync_timeout_eq dispatched_append split: option.split)
next
  case Bind_setup_subscriber
  then show ?thesis
    by (simp add: setup_subscriber_def set_sync_timeout_eq dispatched_append split: option.split)
next
  case Bind_handle_time
  then show ?thesis using handle_time_outcome[of e stream s] by simp
next
  case (Bind_Publisher_handle pub)
  then show ?thesis
    by (simp add: Publisher_handle_def dispatched_append)
qed

lemma catch_overrun_keeps:
  "client_version (catch_overrun topic_id s) = client_version s
   \<and> dispatched (trace (catch_overrun topic_id s)) = dispatched (trace s)"
  by (simp add: catch_overrun_def Let_def ros_log_def dispatched_append)


lemma read_body_eq:
  assumes "message_checksum stream topic_id = Some c"
  shows "read_body e stream topic_id s =
     (if c \<noteq> 0xff then
        Some (Returns (s\<lparr>pending := Some (1, Bind_read_sync_first),
                        trace := trace s @
                          [Log DEBUG (Received_body (length stream) (unat topic_id)),
                           Log WARN (Bad_checksum (unat topic_id) (length stream)),
                           Buffer_read 1 Bind_read_sync_first]\<rparr>))
      else (case callbacks s topic_id of
              None \<Rightarrow>
                Some (Returns (s\<lparr>pending := Some (1, Bind_read_sync_first),
                                trace := trace s @
                                  [Log DEBUG (Received_body (length stream) (unat topic_id)),
                                   Log WARN (Unrecognized_topicId (unat topic_id)),
                                   Buffer_read 1 Bind_read_sync_first]\<rparr>))
            | Some h \<Rightarrow>
                (case call e h stream
                        (s\<lparr>trace := trace s @
                             [Log DEBUG (Received_body (length stream) (unat topic_id)),
                              Callback topic_id h stream]\<rparr>) of
                   None \<Rightarrow> None
                 | Some (Returns s2) \<Rightarrow> Some (Returns (read_sync_header s2))
                 | Some (Throws StreamOverrunException s2) \<Rightarrow>
                     Some (Returns (read_sync_header (catch_overrun topic_id s2)))
                 | Some (Throws x s2) \<Rightarrow> Some (Throws x s2))))"
  using assms
  by (simp add: read_body_def Let_def read_sync_header_eq ros_log_def split: option.split)


lemma read_body_outcome:
  assumes "length stream < 65536"
  shows "\<exists>s'. read_body e stream topic_id s = Some (Returns s')
     \<and> client_version s' = client_version s
     \<and> pending s' = Some (1, Bind_read_sync_first)
     \<and> dispatched (trace s')
         = dispatched (trace s)
           @ (if message_checksum stream topic_id = Some 0xff
              then (case callbacks s topic_id of
                      Some h \<Rightarrow> [(topic_id, h, stream)] | None \<Rightarrow> [])
              else [])"
proof -
  obtain c where c: "message_checksum stream topic_id = Some c"
    using message_checksum_sum[OF assms] by simp
  note eq = read_body_eq[OF c, of e s]
  show ?thesis
  proof (cases "c = 0xff")
    case False
    then show ?thesis
      unfolding eq c by (simp add: dispatched_append)
  next
    case True
    show ?thesis
    proof (cases "callbacks s topic_id")
      case None
      with True show ?thesis
        unfolding eq c by (simp add: dispatched_append)
    next
      case (Some h)
      define s1 where "s1 = s\<lparr>trace := trace s @
                             [Log DEBUG (Received_body (length stream) (unat topic_id)),
                              Callback topic_id h stream]\<rparr>"
      have d: "dispatched (trace s1) = dispatched (trace s) @ [(topic_id, h, stream)]"
        and v: "client_version s1 = client_version s"
        by (simp_all add: s1_def dispatched_append)
      obtain s2 where s2: "call e h stream s1 = Some (Returns s2)
           \<or> call e h stream s1 = Some (Throws StreamOverrunException s2)"
        and v2: "client_version s2 = client_version s1"
        and d2: "dispatched (trace s2) = dispatched (trace s1)"
        using call_outcome[of e h stream s1] by (elim exE conjE)
      have eq': "read_body e stream topic_id s =
                 (case call e h stream s1 of
                   None \<Rightarrow> None
                 | Some (Returns s2) \<Rightarrow> Some (Returns (read_sync_header s2))
                 | Some (Throws StreamOverrunException s2) \<Rightarrow>
                     Some (Returns (read_sync_header (catch_overrun topic_id s2)))
                 | Some (Throws x s2) \<Rightarrow> Some (Throws x s2))"
        unfolding eq s1_def using True Some by simp
      from s2 show ?thesis
      proof
        assume r: "call e h stream s1 = Some (Returns s2)"
        show ?thesis
          unfolding eq' r c using True Some v v2 d d2
          by (simp add: read_sync_header_eq dispatched_append)
      next
        assume r: "call e h stream s1 = Some (Throws StreamOverrunException s2)"
        show ?thesis
          unfolding eq' r c using True Some v v2 d d2
          by (simp add: read_sync_header_eq dispatched_append catch_overrun_keeps)
      qed
    qed
  qed
qed

subsection \<open>The sync callbacks in closed form; the machine never stops\<close>

lemma read_sync_first_eq:
  "read_sync_first [sync] s =
     Returns (if sync = 0xff then
                s\<lparr>pending := Some (1, Bind_read_sync_second),
                  trace := trace s @ [Buffer_read 1 Bind_read_sync_second]\<rparr>
              else
                s\<lparr>pending := Some (1, Bind_read_sync_first),
                  trace := trace s @ [Buffer_read 1 Bind_read_sync_first]\<rparr>)"
  by (simp add: read_sync_first_def read_sync_header_eq buffer_read_eq)

lemma read_sync_second_UNKNOWN:
  "client_version s = PROTOCOL_UNKNOWN \<Longrightarrow>
   read_sync_second [sync] s =
     Returns (if sync = 0xff then
                s\<lparr>client_version := PROTOCOL_VER1,
                  pending := Some (4, Bind_read_id_length),
                  trace := trace s @ [Log WARN Client_protocol_VER1,
                                      Buffer_read 4 Bind_read_id_length]\<rparr>
              else if sync = 0xfe then
                s\<lparr>client_version := PROTOCOL_VER2,
                  pending := Some (5, Bind_read_id_length),
                  trace := trace s @ [Log INFO Client_protocol_VER2,
                                      Buffer_read 5 Bind_read_id_length]\<rparr>
              else
                s\<lparr>pending := Some (1, Bind_read_sync_first),
                  trace := trace s @ [Buffer_read 1 Bind_read_sync_first]\<rparr>)"
  by (simp add: read_sync_second_def read_sync_header_eq buffer_read_eq ros_log_def Let_def)

lemma read_sync_second_VER1:
  "client_version s = PROTOCOL_VER1 \<Longrightarrow>
   read_sync_second [sync] s =
     Returns (if sync = 0xff then
                s\<lparr>pending := Some (4, Bind_read_id_length),
                  trace := trace s @ [Buffer_read 4 Bind_read_id_length]\<rparr>
              else
                s\<lparr>pending := Some (1, Bind_read_sync_first),
                  trace := trace s @ [Buffer_read 1 Bind_read_sync_first]\<rparr>)"
  by (simp add: read_sync_second_def read_sync_header_eq buffer_read_eq ros_log_def Let_def)

lemma read_sync_second_VER2:
  "client_version s = PROTOCOL_VER2 \<Longrightarrow>
   read_sync_second [sync] s =
     Returns (if sync = 0xfe then
                s\<lparr>pending := Some (5, Bind_read_id_length),
                  trace := trace s @ [Buffer_read 5 Bind_read_id_length]\<rparr>
              else
                s\<lparr>pending := Some (1, Bind_read_sync_first),
                  trace := trace s @ [Buffer_read 1 Bind_read_sync_first]\<rparr>)"
  by (simp add: read_sync_second_def read_sync_header_eq buffer_read_eq ros_log_def Let_def)

lemma length_1_conv: "length xs = Suc 0 \<Longrightarrow> \<exists>a. xs = [a]"
  by (cases xs) auto

lemma length_4_conv: "length xs = 4 \<Longrightarrow> \<exists>a b c d. xs = [a, b, c, d]"
  by (auto simp: eval_nat_numeral length_Suc_conv)

lemma length_5_conv: "length xs = 5 \<Longrightarrow> \<exists>a b c d e. xs = [a, b, c, d, e]"
  by (auto simp: eval_nat_numeral length_Suc_conv)

lemma request_ok_positive: "request_ok v n cb \<Longrightarrow> 0 < n"
  by (cases cb) auto

lemma read_id_length_checked_ok:
  "pending_ok (read_id_length_checked topic_id len s)
   \<and> pending (read_id_length_checked topic_id len s) \<noteq> None
   \<and> client_version (read_id_length_checked topic_id len s) = client_version s"
  by (simp add: read_id_length_checked_eq pending_ok_def buffer_max_def)

lemma deliver_ok:
  assumes "request_ok (client_version s) n cb" and "length stream = n"
  shows "\<exists>s'. deliver e cb stream s = Some (Returns s')
           \<and> pending_ok s' \<and> pending s' \<noteq> None
           \<and> (client_version s \<noteq> PROTOCOL_UNKNOWN \<longrightarrow> client_version s' = client_version s)"
proof (cases cb)
  case Bind_read_sync_first
  with assms obtain b where "stream = [b]" by (auto dest: length_1_conv)
  with Bind_read_sync_first show ?thesis
    by (simp add: read_sync_first_eq pending_ok_def)
next
  case Bind_read_sync_second
  with assms obtain b where "stream = [b]" by (auto dest: length_1_conv)
  with Bind_read_sync_second show ?thesis
    by (cases "client_version s")
       (simp_all add: read_sync_second_UNKNOWN read_sync_second_VER1 read_sync_second_VER2
          pending_ok_def)
next
  case Bind_read_id_length
  with assms consider
      (v1) "client_version s = PROTOCOL_VER1" "length stream = 4"
    | (v2) "client_version s = PROTOCOL_VER2" "length stream = 5"
    by auto
  then show ?thesis
  proof cases
    case v1
    then obtain a b c d where "stream = [a, b, c, d]" by (auto dest: length_4_conv)
    with v1 Bind_read_id_length show ?thesis
      using read_id_length_checked_ok[of "uint16_le a b" "uint16_le c d" s]
      by (auto simp: read_id_length_VER1)
  next
    case v2
    then obtain a b c d lc where "stream = [a, b, c, d, lc]" by (auto dest: length_5_conv)
    with v2 Bind_read_id_length show ?thesis
      using read_id_length_checked_ok[of "uint16_le a b" "uint16_le c d" s]
      by (auto simp: read_id_length_VER2 pending_ok_def)
  qed
next
  case (Bind_read_body topic_id)
  with assms have "length stream < 65536" by (simp add: buffer_max_def)
  from read_body_outcome[OF this, of e topic_id s] Bind_read_body show ?thesis
    by (auto simp: pending_ok_def)
qed

lemma run_ok:
  "pending_ok s \<Longrightarrow>
   \<exists>s'. run e bytes s = Some (Returns s') \<and> pending_ok s'
        \<and> (client_version s \<noteq> PROTOCOL_UNKNOWN \<longrightarrow> client_version s' = client_version s)"
proof (induction e bytes s rule: run.induct)
  case (1 e bytes s)
  show ?case
  proof (cases "pending s")
    case None
    with "1.prems" show ?thesis by (subst run.simps) simp
  next
    case (Some req)
    obtain n cb where req: "req = (n, cb)" by (cases req)
    show ?thesis
    proof (cases "n = 0 \<or> length bytes < n")
      case True
      with Some req "1.prems" show ?thesis by (subst run.simps) simp
    next
      case False
      from "1.prems" Some req have ok: "request_ok (client_version s) n cb"
        by (simp add: pending_ok_def)
      from False have len: "length (take n bytes) = n" by simp
      from deliver_ok[OF ok len, of e] obtain s1 where
        d: "deliver e cb (take n bytes) s = Some (Returns s1)" and p1: "pending_ok s1"
        and v1: "client_version s \<noteq> PROTOCOL_UNKNOWN \<longrightarrow> client_version s1 = client_version s"
        by blast
      from "1.IH"[OF Some req[symmetric] False d refl p1] obtain s' where
        r: "run e (drop n bytes) s1 = Some (Returns s')" and p': "pending_ok s'"
        and v': "client_version s1 \<noteq> PROTOCOL_UNKNOWN \<longrightarrow> client_version s' = client_version s1"
        by blast
      have "run e bytes s = run e (drop n bytes) s1"
        using Some req False d by (subst run.simps) simp
      with r p' v1 v' show ?thesis by auto
    qed
  qed
qed

subsection \<open>Stepping the machine; the started session\<close>

lemma run_step:
  assumes "pending s = Some (n, cb)" and "0 < n" and "n \<le> length bytes"
    and "deliver e cb (take n bytes) s = Some (Returns s')"
  shows "run e bytes s = run e (drop n bytes) s'"
  using assms by (subst run.simps) simp

lemma run_wait:
  assumes "pending s = Some (n, cb)" and "length bytes < n"
  shows "run e bytes s = Some (Returns s)"
  using assms by (subst run.simps) simp

lemma probe_ros_env: "probe ros_env = [0xff, 0xff, 0, 0, 0, 0, 0xff]"
  by (simp add: probe_def ros_env_def bytes_uint16_def checksum_init_def)

lemma start_eq: "start e (Session_new e) = Some (Returns (started e))"
  by (simp add: start_def attempt_sync_def request_topics_def write_message_VER1
        write_buffer_def ros_log_def set_sync_timeout_eq read_sync_header_eq
        started_def Session_new_def probe_def split: option.split outcome.split)

lemma pending_ok_started: "pending_ok (started e)"
  by (simp add: pending_ok_def started_def)

subsection \<open>The checksum byte\<close>

lemma flip_bit_differs: "i < 8 \<Longrightarrow> (c::uint8_t) XOR push_bit i 1 \<noteq> c"
proof
  assume i: "i < 8" and "c XOR push_bit i 1 = c"
  then have "c XOR (c XOR push_bit i 1) = c XOR c" by simp
  then have "(push_bit i 1 :: uint8_t) = 0" by (simp flip: xor.assoc)
  with i show False by (simp add: push_bit_eq_mult)
qed

lemma message_checksum_last_byte:
  assumes "length payload < 65535"
    and "message_checksum (payload @ [c]) topic_id = Some 0xff"
    and "c' \<noteq> c"
  shows "message_checksum (payload @ [c']) topic_id \<noteq> Some 0xff"
proof
  assume a: "message_checksum (payload @ [c']) topic_id = Some 0xff"
  have l: "length (payload @ [c]) < 65536" "length (payload @ [c']) < 65536"
    using assms(1) by simp_all
  from assms(2) a have
    "255 - (checksum_init (Suc (length payload)) topic_id + (sum_list payload + c))
       = 255 - (checksum_init (Suc (length payload)) topic_id + (sum_list payload + c'))"
    unfolding message_checksum_sum[OF l(1)] message_checksum_sum[OF l(2)] by simp
  then have "c = c'" by simp
  with assms(3) show False by simp
qed


lemma checksum_0x7d: "message_checksum [0x7d, 0, 0x80] 0 = Some 0xff"
  by (simp add: message_checksum_sum checksum_init_def)

subsection \<open>Subscriber registration\<close>

lemma setup_subscriber_eq:
  "read_TopicInfo e stream = Some topic_info \<Longrightarrow>
   setup_subscriber e stream s
     = Returns (s\<lparr>sync_timer := [timeout_interval s],
                   subscribers := (subscribers s)(TopicInfo_topic_id topic_info \<mapsto>
                                     (topic_info, client_version s)),
                   trace := trace s @ [Timer_cancel (length (sync_timer s)),
                                       Timer_async_wait (timeout_interval s)]\<rparr>)"
  by (simp add: setup_subscriber_def set_sync_timeout_eq)

lemma read_TopicInfo_ros_env:
  "read_TopicInfo ros_env [0x7d, 0, 0x80]
     = Some \<lparr>TopicInfo_topic_id = 125, topic_name = [], message_type = [], md5sum = [],
              buffer_size = 0\<rparr>"
  by (simp add: ros_env_def uint16_le_def)

lemma checksum_user_frame: "message_checksum [1, 2, 3, 121] 125 = Some 0xff"
  by (simp add: message_checksum_sum checksum_init_def)

lemma callbacks_started_125: "callbacks (started ros_env) 125 = None"
  by (simp add: started_def Session_new_def ros_env_def)

subsection \<open>The watchdog in closed form\<close>

lemma request_topics_eq:
  "request_topics e s
     = Some (Returns (s\<lparr>trace := trace s @ [Log DEBUG Sending_request_topics,
                                              Async_write (probe e)]\<rparr>))"
  by (simp add: request_topics_def write_message_VER1 write_buffer_def ros_log_def probe_def)

lemma attempt_sync_eq:
  "attempt_sync e s
     = Some (Returns (s\<lparr>sync_timer := [attempt_interval s],
                        trace := trace s @ [Log DEBUG Sending_request_topics,
                                            Async_write (probe e),
                                            Timer_cancel (length (sync_timer s)),
                                            Timer_async_wait (attempt_interval s)]\<rparr>))"
  by (simp add: attempt_sync_def request_topics_eq set_sync_timeout_eq)

lemma sync_timeout_eq:
  "sync_timeout e error s =
     (if error = operation_aborted then Some (Returns s)
      else Some (Returns (s\<lparr>sync_timer := [attempt_interval s],
                           trace := trace s @ [Log WARN Sync_with_device_lost,
                                               Log DEBUG Sending_request_topics,
                                               Async_write (probe e),
                                               Timer_cancel (length (sync_timer s)),
                                               Timer_async_wait (attempt_interval s)]\<rparr>)))"
  by (simp add: sync_timeout_def attempt_sync_eq ros_log_def)

lemma timer_expires_eq:
  "sync_timer s = [w] \<Longrightarrow>
   timer_expires e s
     = Some (Returns (s\<lparr>sync_timer := [attempt_interval s],
                        trace := trace s @ [Log WARN Sync_with_device_lost,
                                            Log DEBUG Sending_request_topics,
                                            Async_write (probe e),
                                            Timer_cancel 0,
                                            Timer_async_wait (attempt_interval s)]\<rparr>))"
  by (simp add: timer_expires_def sync_timeout_eq)

lemma expiries_probes:
  "sync_timer s = [w] \<Longrightarrow>
   \<exists>s'. expiries e n s = Some (Returns s')
        \<and> written (trace s') = written (trace s) @ replicate n (probe e)
        \<and> sync_timer s' = [if n = 0 then w else attempt_interval s]
        \<and> attempt_interval s' = attempt_interval s"
proof (induction n arbitrary: s w)
  case 0
  then show ?case by simp
next
  case (Suc n)
  let ?s1 = "s\<lparr>sync_timer := [attempt_interval s],
                 trace := trace s @ [Log WARN Sync_with_device_lost,
                                     Log DEBUG Sending_request_topics,
                                     Async_write (probe e),
                                     Timer_cancel 0,
                                     Timer_async_wait (attempt_interval s)]\<rparr>"
  have t: "timer_expires e s = Some (Returns ?s1)"
    using Suc.prems by (rule timer_expires_eq)
  have "sync_timer ?s1 = [attempt_interval s]" by simp
  from Suc.IH[OF this] obtain s' where
    s': "expiries e n ?s1 = Some (Returns s')"
        "written (trace s') = written (trace ?s1) @ replicate n (probe e)"
        "sync_timer s' = [if n = 0 then attempt_interval s else attempt_interval ?s1]"
        "attempt_interval s' = attempt_interval ?s1"
    by blast
  have "expiries e (Suc n) s = Some (Returns s')"
    using t s'(1) by simp
  moreover have "written (trace s') = written (trace s) @ replicate (Suc n) (probe e)"
    using s'(2) by (simp add: written_append replicate_append_same)
  moreover have "sync_timer s' = [attempt_interval s]"
    using s'(3) by simp
  moreover have "attempt_interval s' = attempt_interval s"
    using s'(4) by simp
  ultimately show ?case by simp
qed


lemma handle_time_rearms:
  "client_version s \<noteq> PROTOCOL_UNKNOWN \<Longrightarrow>
   \<exists>s'. handle_time e stream s = Some (Returns s') \<and> sync_timer s' = [timeout_interval s]"
  by (cases "client_version s")
     (simp_all add: handle_time_def Let_def write_message_VER1 write_message_VER2
        bytes_uint32_def write_buffer_def set_sync_timeout_eq)

lemma written_started: "written (trace (started ros_env)) = [[0xff, 0xff, 0, 0, 0, 0, 0xff]]"
  by (simp add: started_def probe_ros_env)

subsection \<open>Running over sync bytes, headers and noise\<close>

lemma run_Nil:
  "pending s = Some (n, cb) \<Longrightarrow> 0 < n \<Longrightarrow> run e [] s = Some (Returns s)"
  by (rule run_wait) simp_all

lemma run_sync_first:
  assumes "pending s = Some (1, Bind_read_sync_first)"
  shows "run e (b # bytes) s
           = run e bytes
               (if b = 0xff then
                  s\<lparr>pending := Some (1, Bind_read_sync_second),
                    trace := trace s @ [Buffer_read 1 Bind_read_sync_second]\<rparr>
                else
                  s\<lparr>pending := Some (1, Bind_read_sync_first),
                    trace := trace s @ [Buffer_read 1 Bind_read_sync_first]\<rparr>)"
  using run_step[OF assms, of "b # bytes" e] by (simp add: read_sync_first_eq)

lemma run_sync_second:
  assumes "pending s = Some (1, Bind_read_sync_second)"
  shows "run e (b # bytes) s = run e bytes (session_of (read_sync_second [b] s))"
proof -
  obtain s' where s': "read_sync_second [b] s = Returns s'"
    by (cases "client_version s")
       (simp_all add: read_sync_second_UNKNOWN read_sync_second_VER1 read_sync_second_VER2)
  with run_step[OF assms, of "b # bytes" e s'] show ?thesis by simp
qed

lemma run_garbage:
  assumes "pending s = Some (1, Bind_read_sync_first)" and "0xff \<notin> set bytes"
  shows "run e bytes s
           = Some (Returns (s\<lparr>trace := trace s @
                     replicate (length bytes) (Buffer_read 1 Bind_read_sync_first)\<rparr>))"
  using assms
proof (induction bytes arbitrary: s)
  case Nil
  then show ?case by (simp add: run_Nil)
next
  case (Cons b bytes)
  let ?s1 = "s\<lparr>pending := Some (1, Bind_read_sync_first),
                 trace := trace s @ [Buffer_read 1 Bind_read_sync_first]\<rparr>"
  from Cons.prems have b: "b \<noteq> 0xff" and r: "0xff \<notin> set bytes" by auto
  have "run e (b # bytes) s = run e bytes ?s1"
    using run_sync_first[OF Cons.prems(1), of e b bytes] b by simp
  also have "\<dots> = Some (Returns (?s1\<lparr>trace := trace ?s1 @
                     replicate (length bytes) (Buffer_read 1 Bind_read_sync_first)\<rparr>))"
    by (rule Cons.IH) (use r in simp_all)
  also have "?s1\<lparr>trace := trace ?s1 @
                     replicate (length bytes) (Buffer_read 1 Bind_read_sync_first)\<rparr>
             = s\<lparr>trace := trace s @
                     replicate (length (b # bytes)) (Buffer_read 1 Bind_read_sync_first)\<rparr>"
    using Cons.prems(1) by (simp add: replicate_app_Cons_same)
  finally show ?case .
qed

text \<open>The events between the first sync byte of a VER1 frame and the request for its body.\<close>

lemma run_header_VER1:
  assumes "pending s = Some (1, Bind_read_sync_first)"
    and "client_version s \<noteq> PROTOCOL_VER2"
    and "unat (uint16_le len_lo len_hi) \<le> 1022"
  shows "run e (0xff # 0xff # id_lo # id_hi # len_lo # len_hi # bytes) s
           = run e bytes
               (s\<lparr>client_version := PROTOCOL_VER1,
                  pending := Some (unat (uint16_le len_lo len_hi) + 1,
                                   Bind_read_body (uint16_le id_lo id_hi)),
                  trace := trace s @ Buffer_read 1 Bind_read_sync_second
                    # (if client_version s = PROTOCOL_UNKNOWN
                       then [Log WARN Client_protocol_VER1] else [])
                    @ [Buffer_read 4 Bind_read_id_length,
                       Log DEBUG (Received_header (unat (uint16_le len_lo len_hi))
                                                  (unat (uint16_le id_lo id_hi))),
                       Buffer_read (unat (uint16_le len_lo len_hi) + 1)
                                   (Bind_read_body (uint16_le id_lo id_hi))]\<rparr>)"
proof -
  let ?s1 = "s\<lparr>pending := Some (1, Bind_read_sync_second),
                 trace := trace s @ [Buffer_read 1 Bind_read_sync_second]\<rparr>"
  let ?s2 = "s\<lparr>client_version := PROTOCOL_VER1,
                 pending := Some (4, Bind_read_id_length),
                 trace := trace s @ Buffer_read 1 Bind_read_sync_second
                    # (if client_version s = PROTOCOL_UNKNOWN
                       then [Log WARN Client_protocol_VER1] else [])
                    @ [Buffer_read 4 Bind_read_id_length]\<rparr>"
  let ?rest = "id_lo # id_hi # len_lo # len_hi # bytes"
  have 1: "run e (0xff # 0xff # ?rest) s = run e (0xff # ?rest) ?s1"
    using run_sync_first[OF assms(1), of e "0xff" "0xff # ?rest"] by simp
  have "session_of (read_sync_second [0xff] ?s1) = ?s2"
    using assms(2)
    by (cases "client_version s")
       (simp_all add: read_sync_second_UNKNOWN read_sync_second_VER1)
  then have 2: "run e (0xff # ?rest) ?s1 = run e ?rest ?s2"
    using run_sync_second[of ?s1 e "0xff" ?rest] by simp
  have 3: "run e ?rest ?s2
             = run e bytes (read_id_length_checked (uint16_le id_lo id_hi)
                              (uint16_le len_lo len_hi) ?s2)"
    using run_step[of ?s2 4 Bind_read_id_length ?rest e]
    by (simp add: read_id_length_VER1)
  show ?thesis
    unfolding 1 2 3 using assms(3) by (simp add: read_id_length_checked_eq)
qed

subsection \<open>Bodies; the checksum the sender appends\<close>

lemma run_body:
  assumes "pending s = Some (n, Bind_read_body topic_id)" and "length body = n" and "0 < n"
  shows "run e (body @ rest) s
           = (case read_body e body topic_id s of
                Some (Returns s') \<Rightarrow> run e rest s'
              | r \<Rightarrow> r)"
proof -
  from assms(2) have "take n (body @ rest) = body" and "drop n (body @ rest) = rest"
    by simp_all
  with assms show ?thesis
    by (subst run.simps) (simp split: option.split outcome.split)
qed

lemma sender_checksum_validates:
  assumes "length p < 65535" and "length p mod 256 \<noteq> 255"
  shows "message_checksum (p @ [255 - (checksum_init (length p) topic_id + sum_list p)]) topic_id
           = Some 0xff"
proof -
  have "length (p @ [255 - (checksum_init (length p) topic_id + sum_list p)]) < 65536"
    using assms(1) by simp
  then show ?thesis
    by (simp add: message_checksum_sum checksum_init_Suc[OF assms(2)])
qed

lemma sender_checksum_carry:
  assumes "length p < 65535" and "length p mod 256 = 255"
  shows "message_checksum (p @ [255 - (checksum_init (length p) topic_id + sum_list p)]) topic_id
           = Some 0xfe"
proof -
  have "length (p @ [255 - (checksum_init (length p) topic_id + sum_list p)]) < 65536"
    using assms(1) by simp
  then show ?thesis
    by (simp add: message_checksum_sum checksum_init_Suc_carry[OF assms(2)])
qed

lemma bytes_uint16_ffff: "bytes_uint16 0xffff = [0xff, 0xff]"
  by (simp add: bytes_uint16_def)

lemma unat_of_nat_16: "n < 65536 \<Longrightarrow> unat (of_nat n :: uint16_t) = n"
  by (simp add: unat_of_nat)

subsection \<open>Header values around the reader capacity\<close>

lemma uint16_le_1023: "uint16_le 0xff 3 = 1023"
  by (simp add: uint16_le_def)

lemma uint16_le_1022: "uint16_le 0xfe 3 = 1022"
  by (simp add: uint16_le_def)

lemma lcc_1023: "length_checksum_computed 1023 = 0xfd"
  by (simp add: length_checksum_computed_def)

lemma lcc_1022: "length_checksum_computed 1022 = 0xfe"
  by (simp add: length_checksum_computed_def)

subsection \<open>Three frames built by write_message, read back\<close>

lemma run_header_VER1_any:
  assumes "pending s = Some (1, Bind_read_sync_first)"
    and "client_version s \<noteq> PROTOCOL_VER2"
  shows "run e (0xff # 0xff # id_lo # id_hi # len_lo # len_hi # bytes) s
           = run e bytes
               (read_id_length_checked (uint16_le id_lo id_hi) (uint16_le len_lo len_hi)
                 (s\<lparr>client_version := PROTOCOL_VER1,
                    pending := Some (4, Bind_read_id_length),
                    trace := trace s @ Buffer_read 1 Bind_read_sync_second
                      # (if client_version s = PROTOCOL_UNKNOWN
                         then [Log WARN Client_protocol_VER1] else [])
                      @ [Buffer_read 4 Bind_read_id_length]\<rparr>))"
proof -
  let ?s1 = "s\<lparr>pending := Some (1, Bind_read_sync_second),
                 trace := trace s @ [Buffer_read 1 Bind_read_sync_second]\<rparr>"
  let ?s2 = "s\<lparr>client_version := PROTOCOL_VER1,
                 pending := Some (4, Bind_read_id_length),
                 trace := trace s @ Buffer_read 1 Bind_read_sync_second
                    # (if client_version s = PROTOCOL_UNKNOWN
                       then [Log WARN Client_protocol_VER1] else [])
                    @ [Buffer_read 4 Bind_read_id_length]\<rparr>"
  let ?rest = "id_lo # id_hi # len_lo # len_hi # bytes"
  have 1: "run e (0xff # 0xff # ?rest) s = run e (0xff # ?rest) ?s1"
    using run_sync_first[OF assms(1), of e "0xff" "0xff # ?rest"] by simp
  have "session_of (read_sync_second [0xff] ?s1) = ?s2"
    using assms(2)
    by (cases "client_version s")
       (simp_all add: read_sync_second_UNKNOWN read_sync_second_VER1)
  then have 2: "run e (0xff # ?rest) ?s1 = run e ?rest ?s2"
    using run_sync_second[of ?s1 e "0xff" ?rest] by simp
  have 3: "run e ?rest ?s2
             = run e bytes (read_id_length_checked (uint16_le id_lo id_hi)
                              (uint16_le len_lo len_hi) ?s2)"
    using run_step[of ?s2 4 Bind_read_id_length ?rest e]
    by (simp add: read_id_length_VER1)
  show ?thesis unfolding 1 2 3 ..
qed

lemma pending_started: "pending (started e) = Some (1, Bind_read_sync_first)"
  and client_version_started: "client_version (started e) = PROTOCOL_UNKNOWN"
  by (simp_all add: started_def Session_new_def)

lemma uint16_le_0: "uint16_le 0 0 = 0"
  by (simp add: uint16_le_def)

lemma uint16_le_255: "uint16_le 0xff 0 = 255"
  by (simp add: uint16_le_def)

text \<open>A VER2 frame as \<open>write_message\<close> builds it, read by a connection locked to VER2.\<close>

lemma write_VER2_empty:
  "write_message [] 0 PROTOCOL_VER2 s
     = Some (Returns (write_buffer [0xff, 0xff, 0, 0, 0, 0, 0xff, 0] s))"
  by (simp add: write_message_VER2 bytes_uint16_def checksum_init_def write_buffer_def)

lemma run_VER2_frame_on_VER2:
  "run ros_env [0xff, 0xff, 0, 0, 0, 0, 0xff, 0]
       ((started ros_env)\<lparr>client_version := PROTOCOL_VER2\<rparr>)
     = Some (Returns ((started ros_env)
         \<lparr>client_version := PROTOCOL_VER2,
          pending := Some (1, Bind_read_sync_first),
          trace := trace (started ros_env) @
            [Buffer_read 1 Bind_read_sync_second, Buffer_read 1 Bind_read_sync_first,
             Buffer_read 1 Bind_read_sync_first, Buffer_read 1 Bind_read_sync_first,
             Buffer_read 1 Bind_read_sync_first, Buffer_read 1 Bind_read_sync_first,
             Buffer_read 1 Bind_read_sync_second, Buffer_read 1 Bind_read_sync_first]\<rparr>))"
  by (simp add: run_sync_first run_sync_second read_sync_second_VER2 pending_started run_Nil)

text \<open>A VER1 frame with a payload of 255 bytes.\<close>

lemma write_VER1_255:
  "write_message (replicate 255 0) 0 PROTOCOL_VER1 s
     = Some (Returns (write_buffer
         (0xff # 0xff # 0 # 0 # 0xff # 0 # replicate 255 0 @ [0]) s))"
  by (simp add: write_message_VER1 bytes_uint16_def checksum_init_def sum_list_replicate
        write_buffer_def)

lemma checksum_255_zeros: "message_checksum (replicate 255 0 @ [0]) 0 = Some 0xfe"
  by (simp add: message_checksum_sum checksum_init_def sum_list_replicate)

lemma run_VER1_255:
  "run ros_env (0xff # 0xff # 0 # 0 # 0xff # 0 # replicate 255 0 @ [0]) (started ros_env)
     = Some (Returns ((started ros_env)
         \<lparr>client_version := PROTOCOL_VER1,
          pending := Some (1, Bind_read_sync_first),
          trace := trace (started ros_env) @
            [Buffer_read 1 Bind_read_sync_second, Log WARN Client_protocol_VER1,
             Buffer_read 4 Bind_read_id_length, Log DEBUG (Received_header 255 0),
             Buffer_read 256 (Bind_read_body 0), Log DEBUG (Received_body 256 0),
             Log WARN (Bad_checksum 0 256), Buffer_read 1 Bind_read_sync_first]\<rparr>))"
proof -
  let ?s1 = "(started ros_env)
         \<lparr>client_version := PROTOCOL_VER1,
          pending := Some (256, Bind_read_body 0),
          trace := trace (started ros_env) @
            [Buffer_read 1 Bind_read_sync_second, Log WARN Client_protocol_VER1,
             Buffer_read 4 Bind_read_id_length, Log DEBUG (Received_header 255 0),
             Buffer_read 256 (Bind_read_body 0)]\<rparr>"
  have "run ros_env (0xff # 0xff # 0 # 0 # 0xff # 0 # replicate 255 0 @ [0]) (started ros_env)
          = run ros_env (replicate 255 0 @ [0]) ?s1"
    using run_header_VER1[of "started ros_env" "0xff" 0 ros_env 0 0 "replicate 255 0 @ [0]"]
    by (simp add: pending_started client_version_started uint16_le_255 uint16_le_0)
  also have "\<dots> = (case read_body ros_env (replicate 255 0 @ [0]) 0 ?s1 of
                Some (Returns s') \<Rightarrow> run ros_env [] s'
              | r \<Rightarrow> r)"
    using run_body[of ?s1 256 0 "replicate 255 0 @ [0]" ros_env "[]"] by simp
  finally show ?thesis
    by (simp add: read_body_eq[OF checksum_255_zeros] run_Nil)
qed

text \<open>A VER1 frame with a payload of 1023 bytes.\<close>

lemma write_VER1_1023:
  "write_message (replicate 1023 0) 0 PROTOCOL_VER1 s
     = Some (Returns (write_buffer
         (0xff # 0xff # 0 # 0 # 0xff # 3 # replicate 1023 0 @ [0xfd]) s))"
  by (simp add: write_message_VER1 bytes_uint16_def checksum_init_def sum_list_replicate
        write_buffer_def)

lemma run_VER1_1023:
  "run ros_env (0xff # 0xff # 0 # 0 # 0xff # 3 # replicate 1023 0 @ [0xfd]) (started ros_env)
     = Some (Returns ((started ros_env)
         \<lparr>client_version := PROTOCOL_VER1,
          pending := Some (1, Bind_read_sync_first),
          trace := trace (started ros_env) @
            [Buffer_read 1 Bind_read_sync_second, Log WARN Client_protocol_VER1,
             Buffer_read 4 Bind_read_id_length, Log DEBUG (Received_header 1023 0),
             Log WARN Overrun_on_receive_buffer, Buffer_read 1 Bind_read_sync_first]
            @ replicate 1024 (Buffer_read 1 Bind_read_sync_first)\<rparr>))"
proof -
  let ?s1 = "(started ros_env)
         \<lparr>client_version := PROTOCOL_VER1,
          pending := Some (1, Bind_read_sync_first),
          trace := trace (started ros_env) @
            [Buffer_read 1 Bind_read_sync_second, Log WARN Client_protocol_VER1,
             Buffer_read 4 Bind_read_id_length, Log DEBUG (Received_header 1023 0),
             Log WARN Overrun_on_receive_buffer, Buffer_read 1 Bind_read_sync_first]\<rparr>"
  have "run ros_env (0xff # 0xff # 0 # 0 # 0xff # 3 # replicate 1023 0 @ [0xfd]) (started ros_env)
          = run ros_env (replicate 1023 0 @ [0xfd]) ?s1"
    using run_header_VER1_any[of "started ros_env" ros_env 0 0 "0xff" 3 "replicate 1023 0 @ [0xfd]"]
    by (simp add: pending_started client_version_started uint16_le_1023 uint16_le_0
          read_id_length_checked_eq)
  also have "\<dots> = Some (Returns (?s1\<lparr>trace := trace ?s1 @
                     replicate (length (replicate 1023 (0::uint8_t) @ [0xfd]))
                       (Buffer_read 1 Bind_read_sync_first)\<rparr>))"
    by (rule run_garbage) simp_all
  finally show ?thesis by simp
qed

subsection \<open>Bodies the receiver rejects, and one it accepts\<close>

text \<open>The test of \<open>read_body\<close> is its own: \<open>message_checksum\<close> over the \<open>length + 1\<close> bytes
  delivered. A body that fails it is logged and dropped, and changing the last byte of
  a body that passes it gives one that fails it.\<close>

lemma read_body_bad_checksum:
  "(length stream < 65536 \<and> message_checksum stream topic_id \<noteq> Some 0xff \<longrightarrow>
      read_body e stream topic_id s
        = Some (Returns (s\<lparr>pending := Some (1, Bind_read_sync_first),
                           trace := trace s @
                             [Log DEBUG (Received_body (length stream) (unat topic_id)),
                              Log WARN (Bad_checksum (unat topic_id) (length stream)),
                              Buffer_read 1 Bind_read_sync_first]\<rparr>)))
   \<and> (length payload < 65535 \<and> message_checksum (payload @ [c]) topic_id' = Some 0xff
        \<and> i < 8 \<longrightarrow>
      read_body e' (payload @ [c XOR push_bit i 1]) topic_id' s'
        = Some (Returns (s'\<lparr>pending := Some (1, Bind_read_sync_first),
                            trace := trace s' @
                              [Log DEBUG (Received_body (length payload + 1) (unat topic_id')),
                               Log WARN (Bad_checksum (unat topic_id') (length payload + 1)),
                               Buffer_read 1 Bind_read_sync_first]\<rparr>)))"
proof (intro conjI impI)
  assume a: "length stream < 65536 \<and> message_checksum stream topic_id \<noteq> Some 0xff"
  then obtain x where x: "message_checksum stream topic_id = Some x" "x \<noteq> 0xff"
    using message_checksum_sum[of stream topic_id] by auto
  show "read_body e stream topic_id s
        = Some (Returns (s\<lparr>pending := Some (1, Bind_read_sync_first),
                           trace := trace s @
                             [Log DEBUG (Received_body (length stream) (unat topic_id)),
                              Log WARN (Bad_checksum (unat topic_id) (length stream)),
                              Buffer_read 1 Bind_read_sync_first]\<rparr>))"
    unfolding read_body_eq[OF x(1)] using x(2) by simp
next
  assume a: "length payload < 65535 \<and> message_checksum (payload @ [c]) topic_id' = Some 0xff
        \<and> i < 8"
  let ?c' = "c XOR push_bit i 1"
  from a have ne: "message_checksum (payload @ [?c']) topic_id' \<noteq> Some 0xff"
    by (intro message_checksum_last_byte[where c = c] flip_bit_differs) simp_all
  from a have "length (payload @ [?c']) < 65536" by simp
  then obtain x where x: "message_checksum (payload @ [?c']) topic_id' = Some x"
    using message_checksum_sum[of "payload @ [?c']" topic_id'] by auto
  with ne have "x \<noteq> 0xff" by simp
  then show "read_body e' (payload @ [?c']) topic_id' s'
        = Some (Returns (s'\<lparr>pending := Some (1, Bind_read_sync_first),
                            trace := trace s' @
                              [Log DEBUG (Received_body (length payload + 1) (unat topic_id')),
                               Log WARN (Bad_checksum (unat topic_id') (length payload + 1)),
                               Buffer_read 1 Bind_read_sync_first]\<rparr>))"
    unfolding read_body_eq[OF x] by simp
qed

text \<open>For a payload whose length is not 255 modulo 256, the byte \<open>write_message\<close> appends
  passes that test, and with any one bit flipped it fails it.\<close>

lemma flipped_sender_checksum_rejected:
  assumes "length p < 65535" and "length p mod 256 \<noteq> 255" and "i < 8"
  shows "message_checksum
           (p @ [(255 - (checksum_init (length p) topic_id + sum_list p)) XOR push_bit i 1])
           topic_id \<noteq> Some 0xff"
  using assms
  by (intro message_checksum_last_byte
              [where c = "255 - (checksum_init (length p) topic_id + sum_list p)"]
            sender_checksum_validates flip_bit_differs)

text \<open>A VER1 frame with a payload of 255 bytes, the last one \<open>0xff\<close>.\<close>

lemma write_VER1_254_ff:
  "write_message (replicate 254 0 @ [0xff]) 0 PROTOCOL_VER1 s
     = Some (Returns (write_buffer
         (0xff # 0xff # 0 # 0 # 0xff # 0 # replicate 254 0 @ [0xff, 1]) s))"
  by (simp add: write_message_VER1 bytes_uint16_def checksum_init_def sum_list_replicate
        write_buffer_def)

lemma checksum_254_ff_flipped: "message_checksum (replicate 254 0 @ [0xff, 0]) 0 = Some 0xff"
  by (simp add: message_checksum_sum checksum_init_def sum_list_replicate)

lemma checksum_254_ff_sent: "message_checksum (replicate 254 0 @ [0xff, 1]) 0 = Some 0xfe"
  by (simp add: message_checksum_sum checksum_init_def sum_list_replicate)

lemma callbacks_started_0: "callbacks (started ros_env) 0 = Some Bind_setup_publisher"
  by (simp add: started_def Session_new_def ros_env_def)

lemma dispatched_started: "dispatched (trace (started e)) = []"
  by (simp add: started_def)

lemma run_VER1_255_body:
  assumes "length body = 256"
  shows "run ros_env (0xff # 0xff # 0 # 0 # 0xff # 0 # body) (started ros_env)
           = (case read_body ros_env body 0
                     ((started ros_env)
                        \<lparr>client_version := PROTOCOL_VER1,
                         pending := Some (256, Bind_read_body 0),
                         trace := trace (started ros_env) @
                           [Buffer_read 1 Bind_read_sync_second, Log WARN Client_protocol_VER1,
                            Buffer_read 4 Bind_read_id_length, Log DEBUG (Received_header 255 0),
                            Buffer_read 256 (Bind_read_body 0)]\<rparr>) of
                Some (Returns s') \<Rightarrow> run ros_env [] s'
              | r \<Rightarrow> r)"
proof -
  let ?s1 = "(started ros_env)
         \<lparr>client_version := PROTOCOL_VER1,
          pending := Some (256, Bind_read_body 0),
          trace := trace (started ros_env) @
            [Buffer_read 1 Bind_read_sync_second, Log WARN Client_protocol_VER1,
             Buffer_read 4 Bind_read_id_length, Log DEBUG (Received_header 255 0),
             Buffer_read 256 (Bind_read_body 0)]\<rparr>"
  have "run ros_env (0xff # 0xff # 0 # 0 # 0xff # 0 # body) (started ros_env)
          = run ros_env (body @ []) ?s1"
    using run_header_VER1[of "started ros_env" "0xff" 0 ros_env 0 0 body]
    by (simp add: pending_started client_version_started uint16_le_255 uint16_le_0)
  also have "\<dots> = (case read_body ros_env body 0 ?s1 of
                Some (Returns s') \<Rightarrow> run ros_env [] s'
              | r \<Rightarrow> r)"
    using run_body[of ?s1 256 0 body ros_env "[]"] assms by simp
  finally show ?thesis .
qed

section \<open>The claims\<close>

subsection \<open>C7: read failures\<close>

text \<open>
  C7. A read failure with the "no buffer space" condition is recoverable, whatever the
  receive state: \<open>read_failed\<close> logs a warning and requests one byte for
  \<open>read_sync_first\<close>, and changes nothing else of the session (it is not deleted and keeps
  its publishers and subscribers). Every other (non-zero) error code is fatal: the socket is
  cancelled and the session is deleted, which empties the maps that hold the publisher
  and subscriber collaborators.
\<close>

theorem read_failed_recoverable_or_fatal:
  "read_failed no_buffer_space s
     = s\<lparr>pending := Some (1, Bind_read_sync_first),
         trace := trace s @ [Log WARN Overrun_on_receive_buffer,
                             Buffer_read 1 Bind_read_sync_first]\<rparr>
   \<and> (error \<noteq> success \<and> error \<noteq> no_buffer_space \<longrightarrow>
        read_failed error s
          = s\<lparr>sync_timer := [], pending := None, callbacks := Map.empty,
              publishers := Map.empty, subscribers := Map.empty, deleted := True,
              trace := trace s @ [Socket_cancel, Log DEBUG (Socket_asio_error error),
                                  Log WARN Stopping_due_to_read_error, Delete_this,
                                  Log INFO Ending_session]\<rparr>)"
  by (simp add: read_failed_eq)

theorem read_failed_recoverable_or_fatal_witness:
  "other_error 104 \<noteq> success \<and> other_error 104 \<noteq> no_buffer_space
   \<and> read_failed no_buffer_space (started ros_env)
     = (started ros_env)\<lparr>pending := Some (1, Bind_read_sync_first),
         trace := trace (started ros_env) @ [Log WARN Overrun_on_receive_buffer,
                             Buffer_read 1 Bind_read_sync_first]\<rparr>
   \<and> read_failed (other_error 104) (started ros_env)
     = (started ros_env)\<lparr>sync_timer := [], pending := None, callbacks := Map.empty,
         publishers := Map.empty, subscribers := Map.empty, deleted := True,
         trace := trace (started ros_env) @ [Socket_cancel,
                             Log DEBUG (Socket_asio_error (other_error 104)),
                             Log WARN Stopping_due_to_read_error, Delete_this,
                             Log INFO Ending_session]\<rparr>"
  using read_failed_recoverable_or_fatal [of "started ros_env" "other_error 104"] by simp

subsection \<open>C3: sending before the version is known\<close>

text \<open>
  C3. When \<open>write_message\<close> is called with the version still unknown, it logs the warning
  and puts nothing on the socket. The \<open>default\<close> branch does not return: the code goes on with an
  overhead of 0 bytes and a buffer too small for the frame, and leaves by an exception
  (\<open>out_of_range\<close> on an empty message, \<open>StreamOverrunException\<close> otherwise) before it
  reaches \<open>write_buffer\<close>. On a message shorter than 65536 bytes the session at that point is
  the one before the call plus the warning; on no message does the call return normally.
\<close>

theorem write_message_unknown_refuses:
  "(length message < 65536 \<longrightarrow>
      (\<exists>x. write_message message topic_id PROTOCOL_UNKNOWN s
             = Some (Throws x (s\<lparr>trace := trace s @ [Log WARN Aborting_write_message]\<rparr>))))
   \<and> (\<forall>s'. write_message message' topic_id' PROTOCOL_UNKNOWN s0 \<noteq> Some (Returns s'))"
proof (intro conjI impI allI)
  assume "length message < 65536"
  then show "\<exists>x. write_message message topic_id PROTOCOL_UNKNOWN s
             = Some (Throws x (s\<lparr>trace := trace s @ [Log WARN Aborting_write_message]\<rparr>))"
    by (simp add: write_message_UNKNOWN_short ros_log_def)
next
  fix s'
  show "write_message message' topic_id' PROTOCOL_UNKNOWN s0 \<noteq> Some (Returns s')"
    using write_message_UNKNOWN[of message' topic_id' s0] by auto
qed

theorem write_message_unknown_refuses_witness:
  "length [1, 2, 3 :: uint8_t] < 65536
   \<and> (\<exists>x. write_message [1, 2, 3] 125 PROTOCOL_UNKNOWN (started ros_env)
          = Some (Throws x ((started ros_env)
               \<lparr>trace := trace (started ros_env) @ [Log WARN Aborting_write_message]\<rparr>)))
   \<and> (\<forall>s'. write_message [] 0 PROTOCOL_UNKNOWN (started ros_env) \<noteq> Some (Returns s'))"
  using write_message_unknown_refuses [of "[1, 2, 3]" 125 "started ros_env" "[]" 0 "started ros_env"]
  by simp

subsection \<open>C6: headers that are refused\<close>

text \<open>
  C6. The length checksum \<open>read_id_length\<close> computes is
  \<open>255 - ((length mod 256) + (length div 256)) mod 256\<close>. A VER2 header whose length checksum
  differs from it is answered by a warning and a request for the first sync byte. A header
  (VER2 with a matching length checksum, or VER1) whose declared length exceeds 32767 is
  answered by the debug line, a warning and a request for the first sync byte. In both
  cases no read of the declared body is requested.
\<close>

theorem read_id_length_rejects_bad_header:
  "unat (length_checksum_computed len)
     = 255 - (unat len mod 256 + unat len div 256) mod 256
   \<and> (client_version s1 = PROTOCOL_VER2
        \<and> lc1 \<noteq> length_checksum_computed (uint16_le len_lo1 len_hi1) \<longrightarrow>
      read_id_length [id_lo1, id_hi1, len_lo1, len_hi1, lc1] s1
        = Returns (s1\<lparr>pending := Some (1, Bind_read_sync_first),
                      trace := trace s1 @ [Log WARN Bad_header_length_checksum,
                                           Buffer_read 1 Bind_read_sync_first]\<rparr>))
   \<and> (client_version s2 = PROTOCOL_VER2
        \<and> lc2 = length_checksum_computed (uint16_le len_lo2 len_hi2)
        \<and> unat (uint16_le len_lo2 len_hi2) > 32767 \<longrightarrow>
      read_id_length [id_lo2, id_hi2, len_lo2, len_hi2, lc2] s2
        = Returns (s2\<lparr>pending := Some (1, Bind_read_sync_first),
                      trace := trace s2 @
                        [Log DEBUG (Received_header (unat (uint16_le len_lo2 len_hi2))
                                                    (unat (uint16_le id_lo2 id_hi2))),
                         Log WARN (Declared_length_in_excess
                                     (unat (uint16_le len_lo2 len_hi2)) 32767),
                         Buffer_read 1 Bind_read_sync_first]\<rparr>))
   \<and> (client_version s3 \<noteq> PROTOCOL_VER2
        \<and> unat (uint16_le len_lo3 len_hi3) > 32767 \<longrightarrow>
      read_id_length [id_lo3, id_hi3, len_lo3, len_hi3] s3
        = Returns (s3\<lparr>pending := Some (1, Bind_read_sync_first),
                      trace := trace s3 @
                        [Log DEBUG (Received_header (unat (uint16_le len_lo3 len_hi3))
                                                    (unat (uint16_le id_lo3 id_hi3))),
                         Log WARN (Declared_length_in_excess
                                     (unat (uint16_le len_lo3 len_hi3)) 32767),
                         Buffer_read 1 Bind_read_sync_first]\<rparr>))"
  by (simp add: length_checksum_computed_nat read_id_length_VER1 read_id_length_VER2
        read_id_length_checked_eq)

theorem read_id_length_rejects_bad_header_witness:
  "client_version ((started ros_env)\<lparr>client_version := PROTOCOL_VER2\<rparr>) = PROTOCOL_VER2
   \<and> (0::uint8_t) \<noteq> length_checksum_computed (uint16_le 5 0)
   \<and> read_id_length [0x2a, 0, 5, 0, 0] ((started ros_env)\<lparr>client_version := PROTOCOL_VER2\<rparr>)
       = Returns ((started ros_env)
           \<lparr>client_version := PROTOCOL_VER2,
            pending := Some (1, Bind_read_sync_first),
            trace := trace (started ros_env) @ [Log WARN Bad_header_length_checksum,
                                                 Buffer_read 1 Bind_read_sync_first]\<rparr>)
   \<and> (0x23::uint8_t) = length_checksum_computed (uint16_le 0x40 0x9c)
   \<and> unat (uint16_le 0x40 0x9c) > 32767
   \<and> read_id_length [0x2a, 0, 0x40, 0x9c, 0x23]
         ((started ros_env)\<lparr>client_version := PROTOCOL_VER2\<rparr>)
       = Returns ((started ros_env)
           \<lparr>client_version := PROTOCOL_VER2,
            pending := Some (1, Bind_read_sync_first),
            trace := trace (started ros_env) @
              [Log DEBUG (Received_header 40000 42),
               Log WARN (Declared_length_in_excess 40000 32767),
               Buffer_read 1 Bind_read_sync_first]\<rparr>)
   \<and> client_version ((started ros_env)\<lparr>client_version := PROTOCOL_VER1\<rparr>) \<noteq> PROTOCOL_VER2
   \<and> read_id_length [0x2a, 0, 0x40, 0x9c]
         ((started ros_env)\<lparr>client_version := PROTOCOL_VER1\<rparr>)
       = Returns ((started ros_env)
           \<lparr>client_version := PROTOCOL_VER1,
            pending := Some (1, Bind_read_sync_first),
            trace := trace (started ros_env) @
              [Log DEBUG (Received_header 40000 42),
               Log WARN (Declared_length_in_excess 40000 32767),
               Buffer_read 1 Bind_read_sync_first]\<rparr>)"
  using read_id_length_rejects_bad_header
    [where ?s1.0 = "(started ros_env)\<lparr>client_version := PROTOCOL_VER2\<rparr>"
       and ?lc1.0 = 0 and ?len_lo1.0 = 5 and ?len_hi1.0 = 0 and ?id_lo1.0 = "0x2a" and ?id_hi1.0 = 0
       and ?s2.0 = "(started ros_env)\<lparr>client_version := PROTOCOL_VER2\<rparr>"
       and ?lc2.0 = "0x23" and ?len_lo2.0 = "0x40" and ?len_hi2.0 = "0x9c"
       and ?id_lo2.0 = "0x2a" and ?id_hi2.0 = 0
       and ?s3.0 = "(started ros_env)\<lparr>client_version := PROTOCOL_VER1\<rparr>"
       and ?len_lo3.0 = "0x40" and ?len_hi3.0 = "0x9c" and ?id_lo3.0 = "0x2a" and ?id_hi3.0 = 0]
  by (simp add: uint16_le_40000 uint16_le_5 uint16_le_42 lcc_40000 lcc_5)

subsection \<open>C4: the protocol version\<close>

text \<open>
  C4. A new session has version \<open>PROTOCOL_UNKNOWN\<close>. While it is unknown, the second sync
  byte fixes it: \<open>0xff\<close> to VER1, \<open>0xfe\<close> to VER2, and any other byte leaves it unknown. Once
  it is known, no sequence of received bytes, however long and whatever its content,
  changes it: the receive state machine runs to the point where it waits for more
  bytes, returns normally, and has the version it started with. \<open>read_failed\<close> does not
  change it either.
\<close>

theorem client_version_fixed_once:
  "client_version (Session_new e0) = PROTOCOL_UNKNOWN
   \<and> (client_version s1 = PROTOCOL_UNKNOWN \<longrightarrow>
        client_version (session_of (read_sync_second [sync] s1))
          = (if sync = 0xff then PROTOCOL_VER1
             else if sync = 0xfe then PROTOCOL_VER2
             else PROTOCOL_UNKNOWN))
   \<and> (client_version s \<noteq> PROTOCOL_UNKNOWN \<and> pending_ok s \<longrightarrow>
        (\<exists>s'. run e bytes s = Some (Returns s')
              \<and> client_version s' = client_version s \<and> pending_ok s'))
   \<and> client_version (read_failed error s2) = client_version s2"
proof (intro conjI impI)
  show "client_version (Session_new e0) = PROTOCOL_UNKNOWN"
    by (simp add: Session_new_def)
next
  assume "client_version s1 = PROTOCOL_UNKNOWN"
  then show "client_version (session_of (read_sync_second [sync] s1))
          = (if sync = 0xff then PROTOCOL_VER1
             else if sync = 0xfe then PROTOCOL_VER2
             else PROTOCOL_UNKNOWN)"
    by (simp add: read_sync_second_UNKNOWN)
next
  assume "client_version s \<noteq> PROTOCOL_UNKNOWN \<and> pending_ok s"
  then show "\<exists>s'. run e bytes s = Some (Returns s')
              \<and> client_version s' = client_version s \<and> pending_ok s'"
    using run_ok[of s e bytes] by auto
next
  show "client_version (read_failed error s2) = client_version s2"
    by (simp add: read_failed_eq)
qed

theorem client_version_fixed_once_witness:
  "client_version (started ros_env) = PROTOCOL_UNKNOWN
   \<and> client_version (session_of (read_sync_second [0xfe] (started ros_env))) = PROTOCOL_VER2
   \<and> client_version ((started ros_env)\<lparr>client_version := PROTOCOL_VER2\<rparr>) \<noteq> PROTOCOL_UNKNOWN
   \<and> pending_ok ((started ros_env)\<lparr>client_version := PROTOCOL_VER2\<rparr>)
   \<and> (\<exists>s'. run ros_env [0xff, 0xff, 0, 0, 0, 0, 0xff]
                ((started ros_env)\<lparr>client_version := PROTOCOL_VER2\<rparr>) = Some (Returns s')
          \<and> client_version s' = PROTOCOL_VER2)"
  using client_version_fixed_once
    [where ?s1.0 = "started ros_env" and sync = "0xfe"
       and s = "(started ros_env)\<lparr>client_version := PROTOCOL_VER2\<rparr>"
       and e = ros_env and bytes = "[0xff, 0xff, 0, 0, 0, 0, 0xff]"
       and ?e0.0 = ros_env and error = no_buffer_space and ?s2.0 = "started ros_env"]
  by (auto simp: started_def Session_new_def pending_ok_def)

subsection \<open>C2: a flipped checksum byte\<close>

text \<open>
  C2 fails on the code. The checksum byte of a frame is the one \<open>write_message\<close> appends:
  255 minus the sum of the topic id bytes, the length bytes and the payload bytes. For
  topic 0 and the payload of 254 zero bytes followed by \<open>0xff\<close> it is \<open>0x01\<close>. \<open>read_body\<close> sums
  the bytes of \<open>length + 1\<close> instead of those of \<open>length\<close>, which differs by one more when the
  length is 255 modulo 256. So the frame with the checksum byte flipped in bit 0, to
  \<open>0x00\<close>, passes the receiver's test and its body is dispatched to the handler of topic 0,
  while the frame with the right checksum byte is the one that is rejected.
\<close>

theorem flipped_checksum_byte_is_dispatched:
  "write_message (replicate 254 0 @ [0xff]) 0 PROTOCOL_VER1 (started ros_env)
     = Some (Returns (write_buffer
         (0xff # 0xff # 0 # 0 # 0xff # 0 # replicate 254 0 @ [0xff, 1]) (started ros_env)))
   \<and> (1::uint8_t) XOR push_bit 0 1 = 0
   \<and> map_option (dispatched \<circ> trace \<circ> session_of)
         (run ros_env (0xff # 0xff # 0 # 0 # 0xff # 0 # replicate 254 0 @ [0xff, 0])
              (started ros_env))
       = Some [(0, Bind_setup_publisher, replicate 254 0 @ [0xff, 0])]
   \<and> map_option (dispatched \<circ> trace \<circ> session_of)
         (run ros_env (0xff # 0xff # 0 # 0 # 0xff # 0 # replicate 254 0 @ [0xff, 1])
              (started ros_env))
       = Some []"
proof (intro conjI)
  show "write_message (replicate 254 0 @ [0xff]) 0 PROTOCOL_VER1 (started ros_env)
     = Some (Returns (write_buffer
         (0xff # 0xff # 0 # 0 # 0xff # 0 # replicate 254 0 @ [0xff, 1]) (started ros_env)))"
    by (rule write_VER1_254_ff)
  show "(1::uint8_t) XOR push_bit 0 1 = 0" by simp
next
  let ?body = "replicate 254 (0::uint8_t) @ [0xff, 0]"
  let ?s1 = "(started ros_env)
         \<lparr>client_version := PROTOCOL_VER1,
          pending := Some (256, Bind_read_body 0),
          trace := trace (started ros_env) @
            [Buffer_read 1 Bind_read_sync_second, Log WARN Client_protocol_VER1,
             Buffer_read 4 Bind_read_id_length, Log DEBUG (Received_header 255 0),
             Buffer_read 256 (Bind_read_body 0)]\<rparr>"
  have len: "length ?body = 256" and lt: "length ?body < 65536" by simp_all
  from read_body_outcome[OF lt, of ros_env 0 ?s1] obtain s' where
    rb: "read_body ros_env ?body 0 ?s1 = Some (Returns s')"
    and pd: "pending s' = Some (1, Bind_read_sync_first)"
    and d: "dispatched (trace s')
         = dispatched (trace ?s1)
           @ (if message_checksum ?body 0 = Some 0xff
              then (case callbacks ?s1 0 of Some h \<Rightarrow> [(0, h, ?body)] | None \<Rightarrow> [])
              else [])"
    by blast
  have d': "dispatched (trace s') = [(0, Bind_setup_publisher, ?body)]"
    unfolding d
    by (simp only: checksum_254_ff_flipped if_True)
       (simp add: callbacks_started_0 dispatched_append dispatched_started)
  have "run ros_env (0xff # 0xff # 0 # 0 # 0xff # 0 # ?body) (started ros_env)
          = Some (Returns s')"
    unfolding run_VER1_255_body[OF len] rb using pd by (simp add: run_Nil)
  then show "map_option (dispatched \<circ> trace \<circ> session_of)
         (run ros_env (0xff # 0xff # 0 # 0 # 0xff # 0 # ?body) (started ros_env))
       = Some [(0, Bind_setup_publisher, ?body)]"
    using d' by simp
next
  let ?body = "replicate 254 (0::uint8_t) @ [0xff, 1]"
  have len: "length ?body = 256" by simp
  show "map_option (dispatched \<circ> trace \<circ> session_of)
         (run ros_env (0xff # 0xff # 0 # 0 # 0xff # 0 # ?body) (started ros_env))
       = Some []"
    unfolding run_VER1_255_body[OF len]
    by (simp add: read_body_eq[OF checksum_254_ff_sent] run_Nil dispatched_append
          dispatched_started)
qed

subsection \<open>C10: registering a subscriber\<close>

text \<open>
  C10. When the descriptor decodes, \<open>setup_subscriber\<close> records the subscriber (with the
  version the connection has at that moment) and re-arms the timer with the liveness
  timeout; the dispatch table \<open>callbacks\<close>, the publisher map and every other member are
  unchanged. So if the topic id had no dispatch entry before, it has none afterwards, and a
  later body with a valid checksum on that topic id gets the "unrecognized topicId"
  warning, no handler call, and the request for the next sync byte.
\<close>

theorem setup_subscriber_adds_no_dispatch_entry:
  "(read_TopicInfo e stream = Some topic_info \<longrightarrow>
      setup_subscriber e stream s
        = Returns (s\<lparr>sync_timer := [timeout_interval s],
                      subscribers := (subscribers s)(TopicInfo_topic_id topic_info \<mapsto>
                                        (topic_info, client_version s)),
                      trace := trace s @ [Timer_cancel (length (sync_timer s)),
                                          Timer_async_wait (timeout_interval s)]\<rparr>))
   \<and> (read_TopicInfo e' stream' = Some topic_info'
        \<and> callbacks s' (TopicInfo_topic_id topic_info') = None
        \<and> length body < 65536
        \<and> message_checksum body (TopicInfo_topic_id topic_info') = Some 0xff \<longrightarrow>
      read_body e' body (TopicInfo_topic_id topic_info')
          (read_sync_header (session_of (setup_subscriber e' stream' s')))
        = Some (Returns ((session_of (setup_subscriber e' stream' s'))
            \<lparr>pending := Some (1, Bind_read_sync_first),
             trace := trace (session_of (setup_subscriber e' stream' s')) @
               [Buffer_read 1 Bind_read_sync_first,
                Log DEBUG (Received_body (length body) (unat (TopicInfo_topic_id topic_info'))),
                Log WARN (Unrecognized_topicId (unat (TopicInfo_topic_id topic_info'))),
                Buffer_read 1 Bind_read_sync_first]\<rparr>)))"
proof (intro conjI impI)
  assume "read_TopicInfo e stream = Some topic_info"
  then show "setup_subscriber e stream s
        = Returns (s\<lparr>sync_timer := [timeout_interval s],
                      subscribers := (subscribers s)(TopicInfo_topic_id topic_info \<mapsto>
                                        (topic_info, client_version s)),
                      trace := trace s @ [Timer_cancel (length (sync_timer s)),
                                          Timer_async_wait (timeout_interval s)]\<rparr>)"
    by (rule setup_subscriber_eq)
next
  assume a: "read_TopicInfo e' stream' = Some topic_info'
        \<and> callbacks s' (TopicInfo_topic_id topic_info') = None
        \<and> length body < 65536
        \<and> message_checksum body (TopicInfo_topic_id topic_info') = Some 0xff"
  then have c: "message_checksum body (TopicInfo_topic_id topic_info') = Some 0xff" by simp
  from a show "read_body e' body (TopicInfo_topic_id topic_info')
          (read_sync_header (session_of (setup_subscriber e' stream' s')))
        = Some (Returns ((session_of (setup_subscriber e' stream' s'))
            \<lparr>pending := Some (1, Bind_read_sync_first),
             trace := trace (session_of (setup_subscriber e' stream' s')) @
               [Buffer_read 1 Bind_read_sync_first,
                Log DEBUG (Received_body (length body) (unat (TopicInfo_topic_id topic_info'))),
                Log WARN (Unrecognized_topicId (unat (TopicInfo_topic_id topic_info'))),
                Buffer_read 1 Bind_read_sync_first]\<rparr>))"
    unfolding read_body_eq[OF c]
    by (simp add: setup_subscriber_eq read_sync_header_eq)
qed

theorem setup_subscriber_adds_no_dispatch_entry_witness:
  "read_TopicInfo ros_env [0x7d, 0, 0x80]
     = Some \<lparr>TopicInfo_topic_id = 125, topic_name = [], message_type = [], md5sum = [],
              buffer_size = 0\<rparr>
   \<and> callbacks (started ros_env) 125 = None
   \<and> length [1, 2, 3, 121 :: uint8_t] < 65536
   \<and> message_checksum [1, 2, 3, 121] 125 = Some 0xff
   \<and> setup_subscriber ros_env [0x7d, 0, 0x80] (started ros_env)
       = Returns ((started ros_env)
           \<lparr>sync_timer := [5000],
            subscribers := [125 \<mapsto>
              (\<lparr>TopicInfo_topic_id = 125, topic_name = [], message_type = [], md5sum = [],
                 buffer_size = 0\<rparr>, PROTOCOL_UNKNOWN)],
            trace := trace (started ros_env) @ [Timer_cancel 1, Timer_async_wait 5000]\<rparr>)
   \<and> read_body ros_env [1, 2, 3, 121] 125
         (read_sync_header (session_of (setup_subscriber ros_env [0x7d, 0, 0x80] (started ros_env))))
       = Some (Returns ((started ros_env)
           \<lparr>sync_timer := [5000],
            pending := Some (1, Bind_read_sync_first),
            subscribers := [125 \<mapsto>
              (\<lparr>TopicInfo_topic_id = 125, topic_name = [], message_type = [], md5sum = [],
                 buffer_size = 0\<rparr>, PROTOCOL_UNKNOWN)],
            trace := trace (started ros_env) @
              [Timer_cancel 1, Timer_async_wait 5000,
               Buffer_read 1 Bind_read_sync_first,
               Log DEBUG (Received_body 4 125),
               Log WARN (Unrecognized_topicId 125),
               Buffer_read 1 Bind_read_sync_first]\<rparr>))"
  using setup_subscriber_adds_no_dispatch_entry
    [where e = ros_env and stream = "[0x7d, 0, 0x80]" and s = "started ros_env"
       and topic_info = "\<lparr>TopicInfo_topic_id = 125, topic_name = [], message_type = [],
                          md5sum = [], buffer_size = 0\<rparr>"
       and e' = ros_env and stream' = "[0x7d, 0, 0x80]" and s' = "started ros_env"
       and topic_info' = "\<lparr>TopicInfo_topic_id = 125, topic_name = [], message_type = [],
                          md5sum = [], buffer_size = 0\<rparr>"
       and body = "[1, 2, 3, 121]"]
  by (simp add: read_TopicInfo_ros_env checksum_user_frame callbacks_started_125
        setup_subscriber_eq[OF read_TopicInfo_ros_env])
     (simp add: started_def Session_new_def)

subsection \<open>C8: the sync watchdog\<close>

text \<open>
  C8. \<open>set_sync_timeout\<close> cancels the outstanding waits before it adds its own, so exactly
  one wait is outstanding afterwards, whatever was outstanding before. \<open>sync_timeout\<close> called
  with \<open>operation_aborted\<close> returns the session unchanged: nothing is sent. When the
  outstanding wait expires, \<open>sync_timeout\<close> logs, sends exactly one probe (the
  \<open>request_topics\<close> frame) and arms the timer with the retry interval; \<open>n\<close> expiries in a row
  send exactly \<open>n\<close> probes and leave one wait outstanding, for every \<open>n\<close>. A publisher or
  subscriber registration that decodes, and a time request on a connection whose version
  is known, re-arm the timer with the liveness timeout instead.
\<close>

theorem watchdog_one_timer_one_probe:
  "sync_timer (set_sync_timeout interval s) = [interval]
   \<and> trace (set_sync_timeout interval s)
       = trace s @ [Timer_cancel (length (sync_timer s)), Timer_async_wait interval]
   \<and> sync_timeout e operation_aborted s = Some (Returns s)
   \<and> (sync_timer s1 = [w1] \<longrightarrow>
        timer_expires e s1
          = Some (Returns (s1\<lparr>sync_timer := [attempt_interval s1],
                             trace := trace s1 @ [Log WARN Sync_with_device_lost,
                                                  Log DEBUG Sending_request_topics,
                                                  Async_write (probe e),
                                                  Timer_cancel 0,
                                                  Timer_async_wait (attempt_interval s1)]\<rparr>)))
   \<and> (sync_timer s2 = [w2] \<longrightarrow>
        (\<exists>s'. expiries e n s2 = Some (Returns s')
              \<and> written (trace s') = written (trace s2) @ replicate n (probe e)
              \<and> sync_timer s' = [if n = 0 then w2 else attempt_interval s2]))
   \<and> (read_TopicInfo e stream3 = Some topic_info3 \<longrightarrow>
        sync_timer (session_of (setup_publisher e stream3 s3)) = [timeout_interval s3]
        \<and> sync_timer (session_of (setup_subscriber e stream3 s3)) = [timeout_interval s3])
   \<and> (client_version s4 \<noteq> PROTOCOL_UNKNOWN \<longrightarrow>
        (\<exists>s'. handle_time e stream4 s4 = Some (Returns s')
              \<and> sync_timer s' = [timeout_interval s4]))"
proof (intro conjI impI)
  show "sync_timer (set_sync_timeout interval s) = [interval]"
    by (simp add: set_sync_timeout_eq)
  show "trace (set_sync_timeout interval s)
       = trace s @ [Timer_cancel (length (sync_timer s)), Timer_async_wait interval]"
    by (simp add: set_sync_timeout_eq)
  show "sync_timeout e operation_aborted s = Some (Returns s)"
    by (simp add: sync_timeout_eq)
next
  assume "sync_timer s1 = [w1]"
  then show "timer_expires e s1
          = Some (Returns (s1\<lparr>sync_timer := [attempt_interval s1],
                             trace := trace s1 @ [Log WARN Sync_with_device_lost,
                                                  Log DEBUG Sending_request_topics,
                                                  Async_write (probe e),
                                                  Timer_cancel 0,
                                                  Timer_async_wait (attempt_interval s1)]\<rparr>))"
    by (rule timer_expires_eq)
next
  assume "sync_timer s2 = [w2]"
  from expiries_probes[OF this, of e n]
  show "\<exists>s'. expiries e n s2 = Some (Returns s')
              \<and> written (trace s') = written (trace s2) @ replicate n (probe e)
              \<and> sync_timer s' = [if n = 0 then w2 else attempt_interval s2]"
    by blast
next
  assume "read_TopicInfo e stream3 = Some topic_info3"
  then show "sync_timer (session_of (setup_publisher e stream3 s3)) = [timeout_interval s3]"
    and "sync_timer (session_of (setup_subscriber e stream3 s3)) = [timeout_interval s3]"
    by (simp_all add: setup_publisher_def setup_subscriber_def set_sync_timeout_eq)
next
  assume "client_version s4 \<noteq> PROTOCOL_UNKNOWN"
  then show "\<exists>s'. handle_time e stream4 s4 = Some (Returns s')
              \<and> sync_timer s' = [timeout_interval s4]"
    by (rule handle_time_rearms)
qed

theorem watchdog_one_timer_one_probe_witness:
  "sync_timer (started ros_env) = [1000]
   \<and> timer_expires ros_env (started ros_env)
       = Some (Returns ((started ros_env)
           \<lparr>sync_timer := [1000],
            trace := trace (started ros_env) @
              [Log WARN Sync_with_device_lost, Log DEBUG Sending_request_topics,
               Async_write [0xff, 0xff, 0, 0, 0, 0, 0xff],
               Timer_cancel 0, Timer_async_wait 1000]\<rparr>))
   \<and> (\<exists>s'. expiries ros_env 3 (started ros_env) = Some (Returns s')
          \<and> written (trace s')
              = [[0xff, 0xff, 0, 0, 0, 0, 0xff], [0xff, 0xff, 0, 0, 0, 0, 0xff],
                 [0xff, 0xff, 0, 0, 0, 0, 0xff], [0xff, 0xff, 0, 0, 0, 0, 0xff]]
          \<and> sync_timer s' = [1000])
   \<and> read_TopicInfo ros_env [0x7d, 0, 0x80]
       = Some \<lparr>TopicInfo_topic_id = 125, topic_name = [], message_type = [], md5sum = [],
                buffer_size = 0\<rparr>
   \<and> sync_timer (session_of (setup_publisher ros_env [0x7d, 0, 0x80] (started ros_env))) = [5000]
   \<and> sync_timer (session_of (setup_subscriber ros_env [0x7d, 0, 0x80] (started ros_env))) = [5000]
   \<and> client_version ((started ros_env)\<lparr>client_version := PROTOCOL_VER1\<rparr>) \<noteq> PROTOCOL_UNKNOWN
   \<and> (\<exists>s'. handle_time ros_env [0xf5] ((started ros_env)\<lparr>client_version := PROTOCOL_VER1\<rparr>)
            = Some (Returns s')
          \<and> sync_timer s' = [5000])"
proof -
  have t: "sync_timer (started ros_env) = [1000]"
    and a: "attempt_interval (started ros_env) = 1000"
    and l: "timeout_interval (started ros_env) = 5000"
    by (simp_all add: started_def Session_new_def)
  have three: "replicate 3 x = [x, x, x]" for x :: "uint8_t list"
    by (simp add: eval_nat_numeral)
  show ?thesis
    using watchdog_one_timer_one_probe
      [where e = ros_env and ?s1.0 = "started ros_env" and ?w1.0 = 1000
         and ?s2.0 = "started ros_env" and ?w2.0 = 1000 and n = 3
         and ?stream3.0 = "[0x7d, 0, 0x80]" and ?s3.0 = "started ros_env"
         and ?topic_info3.0 = "\<lparr>TopicInfo_topic_id = 125, topic_name = [], message_type = [],
                                 md5sum = [], buffer_size = 0\<rparr>"
         and ?s4.0 = "(started ros_env)\<lparr>client_version := PROTOCOL_VER1\<rparr>"
         and ?stream4.0 = "[0xf5]" and interval = 5000 and s = "started ros_env"]
    by (simp add: t a l three written_started probe_ros_env read_TopicInfo_ros_env)
qed

subsection \<open>C1: encoding, then decoding\<close>

text \<open>
  C1 as stated fails. \<open>write_message\<close> writes the VER1 layout for both versions (sync bytes
  \<open>0xff 0xff\<close>, no length checksum, and for VER2 one trailing zero byte), so a connection
  locked to VER2 finds no frame in what it sent for VER2. A VER1 frame whose payload
  length is 255 modulo 256 is rejected with a bad checksum, because the receiver sums the
  bytes of \<open>length + 1\<close> where the sender summed those of \<open>length\<close>. A VER1 frame with a payload
  of 1023 bytes or more does not fit the reader.
\<close>

theorem roundtrip_counterexample:
  "write_message [] 0 PROTOCOL_VER2 (started ros_env)
     = Some (Returns (write_buffer [0xff, 0xff, 0, 0, 0, 0, 0xff, 0] (started ros_env)))
   \<and> run ros_env [0xff, 0xff, 0, 0, 0, 0, 0xff, 0]
         ((started ros_env)\<lparr>client_version := PROTOCOL_VER2\<rparr>)
       = Some (Returns ((started ros_env)
           \<lparr>client_version := PROTOCOL_VER2,
            pending := Some (1, Bind_read_sync_first),
            trace := trace (started ros_env) @
              [Buffer_read 1 Bind_read_sync_second, Buffer_read 1 Bind_read_sync_first,
               Buffer_read 1 Bind_read_sync_first, Buffer_read 1 Bind_read_sync_first,
               Buffer_read 1 Bind_read_sync_first, Buffer_read 1 Bind_read_sync_first,
               Buffer_read 1 Bind_read_sync_second, Buffer_read 1 Bind_read_sync_first]\<rparr>))
   \<and> write_message (replicate 255 0) 0 PROTOCOL_VER1 (started ros_env)
       = Some (Returns (write_buffer
           (0xff # 0xff # 0 # 0 # 0xff # 0 # replicate 255 0 @ [0]) (started ros_env)))
   \<and> run ros_env (0xff # 0xff # 0 # 0 # 0xff # 0 # replicate 255 0 @ [0]) (started ros_env)
       = Some (Returns ((started ros_env)
           \<lparr>client_version := PROTOCOL_VER1,
            pending := Some (1, Bind_read_sync_first),
            trace := trace (started ros_env) @
              [Buffer_read 1 Bind_read_sync_second, Log WARN Client_protocol_VER1,
               Buffer_read 4 Bind_read_id_length, Log DEBUG (Received_header 255 0),
               Buffer_read 256 (Bind_read_body 0), Log DEBUG (Received_body 256 0),
               Log WARN (Bad_checksum 0 256), Buffer_read 1 Bind_read_sync_first]\<rparr>))
   \<and> write_message (replicate 1023 0) 0 PROTOCOL_VER1 (started ros_env)
       = Some (Returns (write_buffer
           (0xff # 0xff # 0 # 0 # 0xff # 3 # replicate 1023 0 @ [0xfd]) (started ros_env)))
   \<and> run ros_env (0xff # 0xff # 0 # 0 # 0xff # 3 # replicate 1023 0 @ [0xfd]) (started ros_env)
       = Some (Returns ((started ros_env)
           \<lparr>client_version := PROTOCOL_VER1,
            pending := Some (1, Bind_read_sync_first),
            trace := trace (started ros_env) @
              [Buffer_read 1 Bind_read_sync_second, Log WARN Client_protocol_VER1,
               Buffer_read 4 Bind_read_id_length, Log DEBUG (Received_header 1023 0),
               Log WARN Overrun_on_receive_buffer, Buffer_read 1 Bind_read_sync_first]
              @ replicate 1024 (Buffer_read 1 Bind_read_sync_first)\<rparr>))"
  by (simp only: write_VER2_empty run_VER2_frame_on_VER2 write_VER1_255 run_VER1_255
        write_VER1_1023 run_VER1_1023 simp_thms)

text \<open>
  C1, amended. For VER1, every topic id \<open>t\<close> and every payload \<open>p\<close> of at most 1022 bytes
  whose length is not 255 modulo 256: \<open>write_message\<close> returns and writes a frame, and that
  frame, fed to a session that awaits the first sync byte and whose version is unknown or
  VER1, is accepted. The machine returns to awaiting the first sync byte with the version
  VER1, the body read has a valid checksum, and if \<open>t\<close> has a dispatch entry its handler is
  called once, with a stream that begins with the bytes of \<open>p\<close>; if it has none, no
  handler is called.
\<close>

theorem roundtrip_VER1:
  assumes "length p \<le> 1022" and "length p mod 256 \<noteq> 255"
    and "pending s = Some (1, Bind_read_sync_first)"
    and "client_version s \<noteq> PROTOCOL_VER2"
  shows "\<exists>frame s'.
           write_message p t PROTOCOL_VER1 w = Some (Returns (write_buffer frame w))
         \<and> run e frame s = Some (Returns s')
         \<and> client_version s' = PROTOCOL_VER1
         \<and> pending s' = Some (1, Bind_read_sync_first)
         \<and> (\<exists>stream. take (length p) stream = p
               \<and> message_checksum stream t = Some 0xff
               \<and> dispatched (trace s')
                   = dispatched (trace s)
                     @ (case callbacks s t of Some h \<Rightarrow> [(t, h, stream)] | None \<Rightarrow> []))"
proof -
  define c where "c = 255 - (checksum_init (length p) t + sum_list p)"
  define len :: uint16_t where "len = of_nat (length p)"
  define body where "body = p @ [c]"
  define frame where "frame = bytes_uint16 0xffff @ bytes_uint16 t @ bytes_uint16 len @ body"
  have ulen: "unat len = length p"
    using assms(1) by (simp add: len_def unat_of_nat_16)
  have w: "write_message p t PROTOCOL_VER1 w = Some (Returns (write_buffer frame w))"
    using assms(1) by (simp add: write_message_VER1 frame_def body_def c_def len_def)
  have valid: "message_checksum body t = Some 0xff"
    unfolding body_def c_def using assms(1,2) by (intro sender_checksum_validates) simp_all
  define s1 where "s1 = s\<lparr>client_version := PROTOCOL_VER1,
                  pending := Some (length p + 1, Bind_read_body t),
                  trace := trace s @ Buffer_read 1 Bind_read_sync_second
                    # (if client_version s = PROTOCOL_UNKNOWN
                       then [Log WARN Client_protocol_VER1] else [])
                    @ [Buffer_read 4 Bind_read_id_length,
                       Log DEBUG (Received_header (length p) (unat t)),
                       Buffer_read (length p + 1) (Bind_read_body t)]\<rparr>"
  have fr: "frame = 0xff # 0xff # ucast t # ucast (drop_bit 8 t) # ucast len
                    # ucast (drop_bit 8 len) # body"
    by (simp add: frame_def bytes_uint16_def)
  have hdr: "run e frame s = run e body s1"
    unfolding fr
    using run_header_VER1[OF assms(3,4), of "ucast len" "ucast (drop_bit 8 len)" e
            "ucast t" "ucast (drop_bit 8 t)" body] assms(1)
    by (simp add: uint16_le_bytes ulen s1_def)
  have blen: "length body < 65536" using assms(1) by (simp add: body_def)
  from read_body_outcome[OF blen, of e t s1] obtain s' where
    rb: "read_body e body t s1 = Some (Returns s')"
    and v: "client_version s' = client_version s1"
    and pd: "pending s' = Some (1, Bind_read_sync_first)"
    and d: "dispatched (trace s')
         = dispatched (trace s1)
           @ (if message_checksum body t = Some 0xff
              then (case callbacks s1 t of Some h \<Rightarrow> [(t, h, body)] | None \<Rightarrow> [])
              else [])"
    by blast
  have "run e body s1 = run e [] s'"
    using run_body[of s1 "length p + 1" t body e "[]"] rb by (simp add: s1_def body_def)
  also have "\<dots> = Some (Returns s')"
    using pd by (simp add: run_Nil)
  finally have r: "run e frame s = Some (Returns s')" using hdr by simp
  have d1: "dispatched (trace s1) = dispatched (trace s)"
    by (simp add: s1_def dispatched_append)
  have cb: "callbacks s1 t = callbacks s t" by (simp add: s1_def)
  have "take (length p) body = p" by (simp add: body_def)
  moreover have "dispatched (trace s')
                   = dispatched (trace s)
                     @ (case callbacks s t of Some h \<Rightarrow> [(t, h, body)] | None \<Rightarrow> [])"
    using d d1 cb valid by simp
  moreover have "client_version s' = PROTOCOL_VER1" using v by (simp add: s1_def)
  ultimately show ?thesis using w r pd valid by blast
qed

theorem roundtrip_VER1_witness:
  "length [0x7d, 0 :: uint8_t] \<le> 1022 \<and> length [0x7d, 0 :: uint8_t] mod 256 \<noteq> 255
   \<and> pending (started ros_env) = Some (1, Bind_read_sync_first)
   \<and> client_version (started ros_env) \<noteq> PROTOCOL_VER2
   \<and> (\<exists>frame s'.
           write_message [0x7d, 0] 0 PROTOCOL_VER1 (started ros_env)
             = Some (Returns (write_buffer frame (started ros_env)))
         \<and> run ros_env frame (started ros_env) = Some (Returns s')
         \<and> client_version s' = PROTOCOL_VER1
         \<and> pending s' = Some (1, Bind_read_sync_first)
         \<and> (\<exists>stream. take (length [0x7d, 0 :: uint8_t]) stream = [0x7d, 0]
               \<and> message_checksum stream 0 = Some 0xff
               \<and> dispatched (trace s') = [(0, Bind_setup_publisher, stream)]))"
proof -
  have c: "callbacks (started ros_env) 0 = Some Bind_setup_publisher"
    by (simp add: started_def Session_new_def ros_env_def)
  have d: "dispatched (trace (started ros_env)) = []"
    by (simp add: started_def)
  show ?thesis
    using roundtrip_VER1 [where p = "[0x7d, 0]" and s = "started ros_env" and t = 0
                            and w = "started ros_env" and e = ros_env]
    by (simp add: pending_started client_version_started c d)
qed

subsection \<open>C5: what the handler is called with\<close>

text \<open>
  C5 fails on the code. \<open>read_body\<close> hands the handler the stream it was called with, which
  is the view over the \<open>length + 1\<close> bytes requested by \<open>read_id_length\<close>: the payload and
  the trailing checksum byte. For the VER1 frame \<open>ff ff 00 00 02 00 7d 00 80\<close> (topic 0,
  payload \<open>7d 00\<close>, checksum \<open>80\<close>) the handler of topic 0 is called with \<open>7d 00 80\<close>.
\<close>

theorem handler_receives_checksum_byte:
  "map_option (dispatched \<circ> trace \<circ> session_of)
     (run ros_env [0xff, 0xff, 0, 0, 2, 0, 0x7d, 0, 0x80] (started ros_env))
     = Some [(0, Bind_setup_publisher, [0x7d, 0, 0x80])]"
proof -
  let ?s1 = "(started ros_env)
         \<lparr>client_version := PROTOCOL_VER1,
          pending := Some (3, Bind_read_body 0),
          trace := trace (started ros_env) @
            [Buffer_read 1 Bind_read_sync_second, Log WARN Client_protocol_VER1,
             Buffer_read 4 Bind_read_id_length, Log DEBUG (Received_header 2 0),
             Buffer_read 3 (Bind_read_body 0)]\<rparr>"
  have u: "uint16_le 2 0 = 2" by (simp add: uint16_le_def)
  have "run ros_env [0xff, 0xff, 0, 0, 2, 0, 0x7d, 0, 0x80] (started ros_env)
          = run ros_env ([0x7d, 0, 0x80] @ []) ?s1"
    using run_header_VER1[of "started ros_env" 2 0 ros_env 0 0 "[0x7d, 0, 0x80]"]
    by (simp add: pending_started client_version_started u uint16_le_0)
  also have "\<dots> = (case read_body ros_env [0x7d, 0, 0x80] 0 ?s1 of
                Some (Returns s') \<Rightarrow> run ros_env [] s'
              | r \<Rightarrow> r)"
    using run_body[of ?s1 3 0 "[0x7d, 0, 0x80]" ros_env "[]"] by simp
  finally show ?thesis
    by (simp add: read_body_eq[OF checksum_0x7d] started_def Session_new_def ros_env_def
          setup_publisher_def set_sync_timeout_eq read_sync_header_eq run_Nil uint16_le_def
          dispatched_append)
qed

subsection \<open>C9: bodies longer than the reader\<close>

text \<open>
  C9. The reader's capacity, \<open>buffer_max\<close>, is 1023 bytes and \<open>read_id_length\<close> requests
  \<open>length + 1\<close> bytes for a body. A header (VER1, or VER2 with a matching length checksum)
  that declares a length from 1023 to 32767 passes the maximum-length check (there is no
  "in excess" warning), the request for its body fails with the no-buffer-space condition,
  and the session logs the overrun and requests the first sync byte: the body is never
  requested and nothing is dispatched. A declared length of at most 1022 is followed by
  the request for the body, in both versions. So 1022 bytes is the largest payload that is
  received.
\<close>

theorem body_longer_than_reader_is_dropped:
  "(client_version s1 \<noteq> PROTOCOL_VER2
      \<and> 1023 \<le> unat (uint16_le len_lo1 len_hi1) \<and> unat (uint16_le len_lo1 len_hi1) \<le> 32767 \<longrightarrow>
      read_id_length [id_lo1, id_hi1, len_lo1, len_hi1] s1
        = Returns (s1\<lparr>pending := Some (1, Bind_read_sync_first),
                      trace := trace s1 @
                        [Log DEBUG (Received_header (unat (uint16_le len_lo1 len_hi1))
                                                    (unat (uint16_le id_lo1 id_hi1))),
                         Log WARN Overrun_on_receive_buffer,
                         Buffer_read 1 Bind_read_sync_first]\<rparr>))
   \<and> (client_version s2 = PROTOCOL_VER2
      \<and> lc2 = length_checksum_computed (uint16_le len_lo2 len_hi2)
      \<and> 1023 \<le> unat (uint16_le len_lo2 len_hi2) \<and> unat (uint16_le len_lo2 len_hi2) \<le> 32767 \<longrightarrow>
      read_id_length [id_lo2, id_hi2, len_lo2, len_hi2, lc2] s2
        = Returns (s2\<lparr>pending := Some (1, Bind_read_sync_first),
                      trace := trace s2 @
                        [Log DEBUG (Received_header (unat (uint16_le len_lo2 len_hi2))
                                                    (unat (uint16_le id_lo2 id_hi2))),
                         Log WARN Overrun_on_receive_buffer,
                         Buffer_read 1 Bind_read_sync_first]\<rparr>))
   \<and> (client_version s3 \<noteq> PROTOCOL_VER2
      \<and> unat (uint16_le len_lo3 len_hi3) \<le> 1022 \<longrightarrow>
      read_id_length [id_lo3, id_hi3, len_lo3, len_hi3] s3
        = Returns (s3\<lparr>pending := Some (unat (uint16_le len_lo3 len_hi3) + 1,
                                        Bind_read_body (uint16_le id_lo3 id_hi3)),
                      trace := trace s3 @
                        [Log DEBUG (Received_header (unat (uint16_le len_lo3 len_hi3))
                                                    (unat (uint16_le id_lo3 id_hi3))),
                         Buffer_read (unat (uint16_le len_lo3 len_hi3) + 1)
                                     (Bind_read_body (uint16_le id_lo3 id_hi3))]\<rparr>))
   \<and> (client_version s4 = PROTOCOL_VER2
      \<and> lc4 = length_checksum_computed (uint16_le len_lo4 len_hi4)
      \<and> unat (uint16_le len_lo4 len_hi4) \<le> 1022 \<longrightarrow>
      read_id_length [id_lo4, id_hi4, len_lo4, len_hi4, lc4] s4
        = Returns (s4\<lparr>pending := Some (unat (uint16_le len_lo4 len_hi4) + 1,
                                        Bind_read_body (uint16_le id_lo4 id_hi4)),
                      trace := trace s4 @
                        [Log DEBUG (Received_header (unat (uint16_le len_lo4 len_hi4))
                                                    (unat (uint16_le id_lo4 id_hi4))),
                         Buffer_read (unat (uint16_le len_lo4 len_hi4) + 1)
                                     (Bind_read_body (uint16_le id_lo4 id_hi4))]\<rparr>))"
  by (simp add: read_id_length_VER1 read_id_length_VER2 read_id_length_checked_eq)

theorem body_longer_than_reader_is_dropped_witness:
  "client_version ((started ros_env)\<lparr>client_version := PROTOCOL_VER1\<rparr>) \<noteq> PROTOCOL_VER2
   \<and> 1023 \<le> unat (uint16_le 0xff 3) \<and> unat (uint16_le 0xff 3) \<le> 32767
   \<and> read_id_length [0x2a, 0, 0xff, 3] ((started ros_env)\<lparr>client_version := PROTOCOL_VER1\<rparr>)
       = Returns ((started ros_env)
           \<lparr>client_version := PROTOCOL_VER1,
            pending := Some (1, Bind_read_sync_first),
            trace := trace (started ros_env) @
              [Log DEBUG (Received_header 1023 42), Log WARN Overrun_on_receive_buffer,
               Buffer_read 1 Bind_read_sync_first]\<rparr>)
   \<and> client_version ((started ros_env)\<lparr>client_version := PROTOCOL_VER2\<rparr>) = PROTOCOL_VER2
   \<and> (0xfd::uint8_t) = length_checksum_computed (uint16_le 0xff 3)
   \<and> read_id_length [0x2a, 0, 0xff, 3, 0xfd]
         ((started ros_env)\<lparr>client_version := PROTOCOL_VER2\<rparr>)
       = Returns ((started ros_env)
           \<lparr>client_version := PROTOCOL_VER2,
            pending := Some (1, Bind_read_sync_first),
            trace := trace (started ros_env) @
              [Log DEBUG (Received_header 1023 42), Log WARN Overrun_on_receive_buffer,
               Buffer_read 1 Bind_read_sync_first]\<rparr>)
   \<and> unat (uint16_le 0xfe 3) \<le> 1022
   \<and> read_id_length [0x2a, 0, 0xfe, 3] ((started ros_env)\<lparr>client_version := PROTOCOL_VER1\<rparr>)
       = Returns ((started ros_env)
           \<lparr>client_version := PROTOCOL_VER1,
            pending := Some (1023, Bind_read_body 42),
            trace := trace (started ros_env) @
              [Log DEBUG (Received_header 1022 42),
               Buffer_read 1023 (Bind_read_body 42)]\<rparr>)
   \<and> (0xfe::uint8_t) = length_checksum_computed (uint16_le 0xfe 3)
   \<and> read_id_length [0x2a, 0, 0xfe, 3, 0xfe]
         ((started ros_env)\<lparr>client_version := PROTOCOL_VER2\<rparr>)
       = Returns ((started ros_env)
           \<lparr>client_version := PROTOCOL_VER2,
            pending := Some (1023, Bind_read_body 42),
            trace := trace (started ros_env) @
              [Log DEBUG (Received_header 1022 42),
               Buffer_read 1023 (Bind_read_body 42)]\<rparr>)"
  using body_longer_than_reader_is_dropped
    [where ?s1.0 = "(started ros_env)\<lparr>client_version := PROTOCOL_VER1\<rparr>"
       and ?len_lo1.0 = "0xff" and ?len_hi1.0 = 3 and ?id_lo1.0 = "0x2a" and ?id_hi1.0 = 0
       and ?s2.0 = "(started ros_env)\<lparr>client_version := PROTOCOL_VER2\<rparr>"
       and ?lc2.0 = "0xfd" and ?len_lo2.0 = "0xff" and ?len_hi2.0 = 3
       and ?id_lo2.0 = "0x2a" and ?id_hi2.0 = 0
       and ?s3.0 = "(started ros_env)\<lparr>client_version := PROTOCOL_VER1\<rparr>"
       and ?len_lo3.0 = "0xfe" and ?len_hi3.0 = 3 and ?id_lo3.0 = "0x2a" and ?id_hi3.0 = 0
       and ?s4.0 = "(started ros_env)\<lparr>client_version := PROTOCOL_VER2\<rparr>"
       and ?lc4.0 = "0xfe" and ?len_lo4.0 = "0xfe" and ?len_hi4.0 = 3
       and ?id_lo4.0 = "0x2a" and ?id_hi4.0 = 0]
  by (simp add: uint16_le_1023 uint16_le_1022 uint16_le_42 lcc_1023 lcc_1022)

end
